theory Spec2Isabelle
  imports Complex_Main
begin

section \<open>Numbers, vectors and series\<close>

text \<open>
  The programs compute on numpy float64 values. Except where said otherwise they are
  modelled as \<open>real\<close>, one real operation for one float operation, so that rounding,
  overflow and NaN inputs are left out. Rounding is modelled where a property rests on it:
  the division and the multiplication by 9.81 in \<open>apply_calibration\<close> round to float64
  (\<open>float64\<close> below). The places where the code can leave the finite numbers (a division by
  zero, the square root of a negative number) are modelled with the type \<open>np_float\<close>, whose
  extra values are numpy's \<open>inf\<close>, \<open>-inf\<close> and \<open>nan\<close>.
\<close>

datatype np_float = Finite real | PosInf | NegInf | NaN

text \<open>
  Division and multiplication of float64 values where the divisor may be zero: numpy
  warns and returns \<open>inf\<close>, \<open>-inf\<close> or \<open>nan\<close>; it does not raise.
\<close>

definition np_divide :: "real \<Rightarrow> real \<Rightarrow> np_float" where
  "np_divide a b =
     (if b \<noteq> 0 then Finite (a / b)
      else if a = 0 then NaN else if 0 < a then PosInf else NegInf)"

fun np_multiply :: "np_float \<Rightarrow> real \<Rightarrow> np_float" where
  "np_multiply (Finite a) c = Finite (a * c)"
| "np_multiply NaN c = NaN"
| "np_multiply PosInf c = (if c = 0 then NaN else if 0 < c then PosInf else NegInf)"
| "np_multiply NegInf c = (if c = 0 then NaN else if 0 < c then NegInf else PosInf)"

text \<open>
  Rounding a real number to the nearest float64, ties to even. \<open>binade\<close> finds the exponent
  \<open>e\<close> with \<open>2^52 \<le> |x| / 2^e < 2^53\<close> by doubling or halving (the first argument bounds
  the number of steps); below the normal range the spacing stays \<open>2^-1074\<close>. Results beyond
  the largest float64 are left out.
\<close>

fun binade :: "nat \<Rightarrow> real \<Rightarrow> int \<Rightarrow> int" where
  "binade 0 m e = e"
| "binade (Suc k) m e =
     (if m < 2 ^ 52 then binade k (2 * m) (e - 1)
      else if 2 ^ 53 \<le> m then binade k (m / 2) (e + 1)
      else e)"

definition pow2 :: "int \<Rightarrow> real" where
  "pow2 e = (if 0 \<le> e then 2 ^ nat e else 1 / 2 ^ nat (- e))"

definition round_half_even :: "real \<Rightarrow> int" where
  "round_half_even m =
     (let f = \<lfloor>m\<rfloor>; r = m - of_int f
      in if r < 1 / 2 then f else if 1 / 2 < r then f + 1 else if even f then f else f + 1)"

definition float64 :: "real \<Rightarrow> real" where
  "float64 x =
     (if x = 0 then 0
      else (let e = max (binade 2200 \<bar>x\<bar> 0) (- 1074)
            in sgn x * of_int (round_half_even (\<bar>x\<bar> / pow2 e)) * pow2 e))"

text \<open>The literal \<open>9.81\<close>.\<close>

definition standard_gravity :: real where
  "standard_gravity = float64 (981 / 100)"

type_synonym vec3 = "real \<times> real \<times> real"

text \<open>A 3x3 array, as its three rows.\<close>

type_synonym mat3 = "vec3 \<times> vec3 \<times> vec3"

datatype py_exception = KeyError string | IndexError | LinAlgError

text \<open>
  A row of the input frame: the columns \<open>seconds_elapsed\<close>, \<open>x_acc\<close>, \<open>y_acc\<close>, \<open>z_acc\<close>
  of the CSV file. A frame is the list of its rows, in index order (the default integer
  index of \<open>pd.read_csv\<close>, so that label \<open>i\<close> is position \<open>i\<close>).
\<close>

record sample =
  seconds_elapsed :: real
  x_acc :: real
  y_acc :: real
  z_acc :: real

text \<open>The module-level configuration constants of \<open>position.py\<close> that the functions read.\<close>

record config =
  UNITS_IN_MPS2 :: bool
  APPLY_ZUPT :: bool
  ACC_THRESHOLD :: real
  WINDOW_SIZE :: nat

text \<open>The values the source file gives them.\<close>

definition source_config :: config where
  "source_config =
     \<lparr>UNITS_IN_MPS2 = True, APPLY_ZUPT = False, ACC_THRESHOLD = 1 / 100, WINDOW_SIZE = 5\<rparr>"

section \<open>position.py: stationary detection\<close>

definition acc_mag :: "sample \<Rightarrow> real" where
  "acc_mag s = sqrt ((x_acc s)\<^sup>2 + (y_acc s)\<^sup>2 + (z_acc s)\<^sup>2)"

text \<open>The sample variance of a window (pandas' \<open>var\<close>, \<open>ddof = 1\<close>).\<close>

definition window_var :: "real list \<Rightarrow> real" where
  "window_var xs =
     (let m = sum_list xs / real (length xs)
      in sum_list (map (\<lambda>x. (x - m)\<^sup>2) xs) / real (length xs - 1))"

text \<open>
  \<open>pd.Series(acc_mag).rolling(window=window_size).var().fillna(0)\<close> at position \<open>i\<close>:
  the variance is NaN, hence filled with 0, while the window is not full and when the
  window holds at most one value.
\<close>

definition rolling_var :: "nat \<Rightarrow> real list \<Rightarrow> nat \<Rightarrow> real" where
  "rolling_var window_size mags i =
     (if window_size \<le> 1 \<or> i + 1 < window_size then 0
      else window_var (take window_size (drop (i + 1 - window_size) mags)))"

definition detect_stationary_periods :: "sample list \<Rightarrow> real \<Rightarrow> nat \<Rightarrow> bool list" where
  "detect_stationary_periods data threshold window_size =
     (let mags = map acc_mag data
      in map (\<lambda>i. rolling_var window_size mags i < threshold) [0..<length data])"

section \<open>position.py: integration\<close>

text \<open>The six arrays \<open>vx, vy, vz, px, py, pz\<close> that the loops fill.\<close>

type_synonym arrays = "real list \<times> real list \<times> real list \<times> real list \<times> real list \<times> real list"

definition zeros :: "nat \<Rightarrow> arrays" where
  "zeros n = (replicate n 0, replicate n 0, replicate n 0,
              replicate n 0, replicate n 0, replicate n 0)"

text \<open>The conversion of the acceleration columns to m/s2 (\<open>g = 9.81\<close>).\<close>

definition to_mps2 :: "bool \<Rightarrow> real \<Rightarrow> real" where
  "to_mps2 units_in_mps2 a = (if units_in_mps2 then a else a * (981 / 100))"

text \<open>The body of the loop of \<open>calculate_position\<close>, at index \<open>i\<close>.\<close>

fun plain_step :: "real list \<Rightarrow> real list \<Rightarrow> real list \<Rightarrow> real list \<Rightarrow> nat \<Rightarrow> arrays \<Rightarrow> arrays" where
  "plain_step time ax ay az i (vx, vy, vz, px, py, pz) =
     (let dt = time ! i - time ! (i - 1);
          vx = vx[i := vx ! (i - 1) + (1 / 2) * (ax ! (i - 1) + ax ! i) * dt];
          vy = vy[i := vy ! (i - 1) + (1 / 2) * (ay ! (i - 1) + ay ! i) * dt];
          vz = vz[i := vz ! (i - 1) + (1 / 2) * (az ! (i - 1) + az ! i) * dt];
          px = px[i := px ! (i - 1) + (1 / 2) * (vx ! (i - 1) + vx ! i) * dt];
          py = py[i := py ! (i - 1) + (1 / 2) * (vy ! (i - 1) + vy ! i) * dt];
          pz = pz[i := pz ! (i - 1) + (1 / 2) * (vz ! (i - 1) + vz ! i) * dt]
      in (vx, vy, vz, px, py, pz))"

text \<open>The body of the loop of \<open>calculate_position_with_zupt\<close>, at index \<open>i\<close>.\<close>

fun zupt_step ::
  "real list \<Rightarrow> real list \<Rightarrow> real list \<Rightarrow> real list \<Rightarrow> bool list \<Rightarrow> nat \<Rightarrow> arrays \<Rightarrow> arrays" where
  "zupt_step time ax ay az stationary i (vx, vy, vz, px, py, pz) =
     (let dt = time ! i - time ! (i - 1);
          (vx, vy, vz) =
            (if \<not> stationary ! i then
               (vx[i := vx ! (i - 1) + (1 / 2) * (ax ! (i - 1) + ax ! i) * dt],
                vy[i := vy ! (i - 1) + (1 / 2) * (ay ! (i - 1) + ay ! i) * dt],
                vz[i := vz ! (i - 1) + (1 / 2) * (az ! (i - 1) + az ! i) * dt])
             else (vx[i := 0], vy[i := 0], vz[i := 0]));
          px = px[i := px ! (i - 1) + (1 / 2) * (vx ! (i - 1) + vx ! i) * dt];
          py = py[i := py ! (i - 1) + (1 / 2) * (vy ! (i - 1) + vy ! i) * dt];
          pz = pz[i := pz ! (i - 1) + (1 / 2) * (vz ! (i - 1) + vz ! i) * dt]
      in (vx, vy, vz, px, py, pz))"

text \<open>A row of the frame that \<open>calculate_position\<close> returns: the input columns and the added ones.\<close>

record position_row = sample +
  x_acc_mps2 :: real
  y_acc_mps2 :: real
  z_acc_mps2 :: real
  is_stationary :: "bool option"
  vx :: real
  vy :: real
  vz :: real
  px :: real
  py :: real
  pz :: real
  displacement :: real

text \<open>
  The frame the two functions return: one row per input row, with the converted
  accelerations, the arrays and \<open>displacement = sqrt(px**2 + py**2 + pz**2)\<close>.
\<close>

definition build_rows ::
  "bool \<Rightarrow> sample list \<Rightarrow> bool list option \<Rightarrow> arrays \<Rightarrow> position_row list" where
  "build_rows units data stationary arrs =
     (case arrs of (v_x, v_y, v_z, p_x, p_y, p_z) \<Rightarrow>
        map (\<lambda>i. \<lparr>seconds_elapsed = seconds_elapsed (data ! i),
                   x_acc = x_acc (data ! i), y_acc = y_acc (data ! i), z_acc = z_acc (data ! i),
                   x_acc_mps2 = to_mps2 units (x_acc (data ! i)),
                   y_acc_mps2 = to_mps2 units (y_acc (data ! i)),
                   z_acc_mps2 = to_mps2 units (z_acc (data ! i)),
                   is_stationary = map_option (\<lambda>st. st ! i) stationary,
                   vx = v_x ! i, vy = v_y ! i, vz = v_z ! i,
                   px = p_x ! i, py = p_y ! i, pz = p_z ! i,
                   displacement = sqrt ((p_x ! i)\<^sup>2 + (p_y ! i)\<^sup>2 + (p_z ! i)\<^sup>2)\<rparr>)
            [0..<length data])"

definition calculate_position_with_zupt ::
  "bool \<Rightarrow> sample list \<Rightarrow> real \<Rightarrow> nat \<Rightarrow> position_row list" where
  "calculate_position_with_zupt units data acc_threshold window_size =
     (let stationary = detect_stationary_periods data acc_threshold window_size;
          time = map seconds_elapsed data;
          n = length time;
          ax = map (\<lambda>s. to_mps2 units (x_acc s)) data;
          ay = map (\<lambda>s. to_mps2 units (y_acc s)) data;
          az = map (\<lambda>s. to_mps2 units (z_acc s)) data;
          arrs = fold (zupt_step time ax ay az stationary) [1..<n] (zeros n)
      in build_rows units data (Some stationary) arrs)"

definition calculate_position :: "config \<Rightarrow> sample list \<Rightarrow> position_row list" where
  "calculate_position cfg data =
     (if APPLY_ZUPT cfg then
        calculate_position_with_zupt (UNITS_IN_MPS2 cfg) data (ACC_THRESHOLD cfg) (WINDOW_SIZE cfg)
      else
        (let time = map seconds_elapsed data;
             n = length time;
             ax = map (\<lambda>s. to_mps2 (UNITS_IN_MPS2 cfg) (x_acc s)) data;
             ay = map (\<lambda>s. to_mps2 (UNITS_IN_MPS2 cfg) (y_acc s)) data;
             az = map (\<lambda>s. to_mps2 (UNITS_IN_MPS2 cfg) (z_acc s)) data;
             arrs = fold (plain_step time ax ay az) [1..<n] (zeros n)
         in build_rows (UNITS_IN_MPS2 cfg) data None arrs))"

section \<open>Arithmetic on 3-vectors and 3x3 arrays\<close>

fun vec_sub :: "vec3 \<Rightarrow> vec3 \<Rightarrow> vec3" where
  "vec_sub (a1, a2, a3) (b1, b2, b3) = (a1 - b1, a2 - b2, a3 - b3)"


text \<open>\<open>a / c\<close> and \<open>a * c\<close> for an array \<open>a\<close> and a scalar \<open>c\<close>.\<close>

fun vec_div :: "vec3 \<Rightarrow> real \<Rightarrow> vec3" where
  "vec_div (a1, a2, a3) c = (a1 / c, a2 / c, a3 / c)"

fun vec_times :: "vec3 \<Rightarrow> real \<Rightarrow> vec3" where
  "vec_times (a1, a2, a3) c = (a1 * c, a2 * c, a3 * c)"

fun vdot :: "vec3 \<Rightarrow> vec3 \<Rightarrow> real" where
  "vdot (a1, a2, a3) (b1, b2, b3) = a1 * b1 + a2 * b2 + a3 * b3"

text \<open>\<open>np.dot(M, v)\<close>: entry \<open>j\<close> is row \<open>j\<close> of \<open>M\<close> times \<open>v\<close>.\<close>

fun mat_vec :: "mat3 \<Rightarrow> vec3 \<Rightarrow> vec3" where
  "mat_vec (r1, r2, r3) v = (vdot r1 v, vdot r2 v, vdot r3 v)"

text \<open>\<open>M.T\<close>.\<close>

fun transpose3 :: "mat3 \<Rightarrow> mat3" where
  "transpose3 ((m11, m12, m13), (m21, m22, m23), (m31, m32, m33)) =
     ((m11, m21, m31), (m12, m22, m32), (m13, m23, m33))"

text \<open>
  \<open>np.dot(v, M)\<close> for a row \<open>v\<close>: entry \<open>j\<close> is the sum over \<open>k\<close> of \<open>v[k] * M[k][j]\<close>.
  \<open>np.dot(P, M)\<close> for an \<open>n x 3\<close> array \<open>P\<close> does this to every row of \<open>P\<close>.
\<close>

fun vec_mat :: "vec3 \<Rightarrow> mat3 \<Rightarrow> vec3" where
  "vec_mat (v1, v2, v3) ((m11, m12, m13), (m21, m22, m23), (m31, m32, m33)) =
     (v1 * m11 + v2 * m21 + v3 * m31,
      v1 * m12 + v2 * m22 + v3 * m32,
      v1 * m13 + v2 * m23 + v3 * m33)"

definition identity3 :: mat3 where
  "identity3 = ((1, 0, 0), (0, 1, 0), (0, 0, 1))"

text \<open>\<open>np.linalg.norm\<close> of a 3-vector.\<close>

fun norm3 :: "vec3 \<Rightarrow> real" where
  "norm3 (a1, a2, a3) = sqrt (a1\<^sup>2 + a2\<^sup>2 + a3\<^sup>2)"

section \<open>position.py: applying a calibration\<close>

text \<open>
  The dictionary read from the calibration file. The function reads the keys \<open>bias\<close> and
  \<open>transform_matrix\<close>; a key the file lacks is \<open>None\<close>, and reading it raises \<open>KeyError\<close>.
  The values are taken to have the shapes the calibration script writes (3 and 3x3).
\<close>

record cal_params =
  bias :: "vec3 option"
  transform_matrix :: "mat3 option"

text \<open>The lines the function prints.\<close>

datatype log_line = Warning_no_parameters | Error_failed_to_apply py_exception | Warning_using_raw

definition acc_of :: "sample \<Rightarrow> vec3" where
  "acc_of s = (x_acc s, y_acc s, z_acc s)"

definition with_acc :: "sample \<Rightarrow> vec3 \<Rightarrow> sample" where
  "with_acc s c = (case c of (c1, c2, c3) \<Rightarrow> s\<lparr>x_acc := c1, y_acc := c2, z_acc := c3\<rparr>)"

text \<open>\<open>acc_data / 9.81\<close> and \<open>calibrated_data * 9.81\<close>, rounded to float64.\<close>

fun vec_div_f64 :: "vec3 \<Rightarrow> real \<Rightarrow> vec3" where
  "vec_div_f64 (a1, a2, a3) c = (float64 (a1 / c), float64 (a2 / c), float64 (a3 / c))"

fun vec_times_f64 :: "vec3 \<Rightarrow> real \<Rightarrow> vec3" where
  "vec_times_f64 (a1, a2, a3) c = (float64 (a1 * c), float64 (a2 * c), float64 (a3 * c))"

text \<open>
  The dtype of the three acceleration columns of a frame: \<open>int64\<close> when \<open>pd.read_csv\<close>
  found only integers in all three, \<open>float64\<close> otherwise. Storing a float into an \<open>int64\<close>
  array truncates it towards zero.
\<close>

datatype dtype = Int64 | Float64

definition to_int64 :: "real \<Rightarrow> real" where
  "to_int64 x = of_int (if 0 \<le> x then \<lfloor>x\<rfloor> else \<lceil>x\<rceil>)"

fun astype :: "dtype \<Rightarrow> vec3 \<Rightarrow> vec3" where
  "astype Float64 v = v"
| "astype Int64 (v1, v2, v3) = (to_int64 v1, to_int64 v2, to_int64 v3)"

text \<open>
  The loop \<open>calibrated_data[i] = np.dot(transform_matrix, (acc_data[i] - bias))\<close>, where
  \<open>calibrated_data = np.zeros_like(acc_data)\<close> has the dtype of \<open>acc_data\<close>.
\<close>

definition calibration_loop :: "dtype \<Rightarrow> mat3 \<Rightarrow> vec3 \<Rightarrow> vec3 list \<Rightarrow> vec3 list" where
  "calibration_loop array_dtype transform b acc_data =
     map (\<lambda>a. astype array_dtype (mat_vec transform (vec_sub a b))) acc_data"

text \<open>
  The body of the \<open>try\<close> block: an exception is the left value. The division by 9.81
  makes \<open>acc_data\<close> a float64 array whatever the frame holds.
\<close>

definition apply_calibration_try ::
  "bool \<Rightarrow> dtype \<Rightarrow> sample list \<Rightarrow> cal_params \<Rightarrow> py_exception + sample list" where
  "apply_calibration_try units_in_mps2 frame_dtype data cp =
     (case bias cp of
        None \<Rightarrow> Inl (KeyError ''bias'')
      | Some b \<Rightarrow>
          (case transform_matrix cp of
             None \<Rightarrow> Inl (KeyError ''transform_matrix'')
           | Some transform \<Rightarrow>
               (let acc_data = map acc_of data;
                    acc_data = (if units_in_mps2
                                then map (\<lambda>a. vec_div_f64 a standard_gravity) acc_data
                                else acc_data);
                    array_dtype = (if units_in_mps2 then Float64 else frame_dtype);
                    calibrated_data = calibration_loop array_dtype transform b acc_data;
                    calibrated_data = (if units_in_mps2
                                       then map (\<lambda>c. vec_times_f64 c standard_gravity) calibrated_data
                                       else calibrated_data)
                in Inr (map2 with_acc data calibrated_data))))"

text \<open>The function: what it prints and the frame it returns. It raises nothing.\<close>

definition apply_calibration ::
  "bool \<Rightarrow> dtype \<Rightarrow> sample list \<Rightarrow> cal_params option \<Rightarrow> log_line list \<times> sample list" where
  "apply_calibration units_in_mps2 frame_dtype data params =
     (case params of
        None \<Rightarrow> ([Warning_no_parameters], data)
      | Some cp \<Rightarrow>
          (case apply_calibration_try units_in_mps2 frame_dtype data cp of
             Inr calibrated_df \<Rightarrow> ([], calibrated_df)
           | Inl e \<Rightarrow> ([Error_failed_to_apply e, Warning_using_raw], data)))"

section \<open>calculate_params.py: applying the fitted calibration\<close>

text \<open>\<open>np.column_stack([X, Y, Z])\<close> for three columns of one frame.\<close>

definition column_stack :: "real list \<Rightarrow> real list \<Rightarrow> real list \<Rightarrow> vec3 list" where
  "column_stack X Y Z = map (\<lambda>(x, y, z). (x, y, z)) (zip X (zip Y Z))"

text \<open>
  The three lines of \<open>calibrate_accelerometer\<close> that apply the calibration:
  \<open>data_points - bias\<close>, then \<open>np.dot(centered_data, transform_matrix.T)\<close>. The
  subtraction of the float64 \<open>bias\<close> gives a float64 array whatever the frame holds.
\<close>

definition calibrated_data_of :: "vec3 \<Rightarrow> mat3 \<Rightarrow> real list \<Rightarrow> real list \<Rightarrow> real list \<Rightarrow> vec3 list" where
  "calibrated_data_of b transform X Y Z =
     (let data_points = column_stack X Y Z;
          centered_data = map (\<lambda>p. vec_sub p b) data_points
      in map (\<lambda>r. vec_mat r (transpose3 transform)) centered_data)"

section \<open>calculate_params.py: the ellipsoid fit\<close>

text \<open>
  \<open>fit_ellipsoid\<close> calls three numpy routines: \<open>np.linalg.lstsq\<close>, \<open>np.linalg.solve\<close> and
  \<open>np.linalg.eig\<close>. They are parameters of the model (\<open>numpy_linalg\<close> below), each with a
  result or the exception it raises, so that the model says what \<open>fit_ellipsoid\<close> does with
  whatever they return. What they return in exact arithmetic is described by \<open>is_lstsq\<close>
  (the least-squares solution of minimal norm), \<open>solve3\<close> (Cramer's rule, \<open>LinAlgError\<close> on
  a singular matrix) and \<open>is_eig\<close> (eigenvalues with unit eigenvectors, as columns); these
  are used for the example below only.
\<close>

definition dot :: "real list \<Rightarrow> real list \<Rightarrow> real" where
  "dot a b = sum_list (map2 (*) a b)"

text \<open>\<open>np.column_stack([X**2, Y**2, Z**2, 2*X*Y, 2*X*Z, 2*Y*Z, 2*X, 2*Y, 2*Z])\<close>, by rows;
  \<open>X\<close>, \<open>Y\<close>, \<open>Z\<close> are three columns of one frame.\<close>

definition design_matrix :: "real list \<Rightarrow> real list \<Rightarrow> real list \<Rightarrow> real list list" where
  "design_matrix X Y Z =
     map (\<lambda>(x, y, z). [x\<^sup>2, y\<^sup>2, z\<^sup>2, 2 * x * y, 2 * x * z, 2 * y * z, 2 * x, 2 * y, 2 * z])
       (zip X (zip Y Z))"

text \<open>\<open>np.ones_like(X)\<close>.\<close>

definition ones_like :: "real list \<Rightarrow> real list" where
  "ones_like X = map (\<lambda>x. 1) X"

text \<open>The squared residual \<open>||D u - b||^2\<close> and the squared norm of \<open>u\<close>.\<close>

definition residual :: "real list list \<Rightarrow> real list \<Rightarrow> real list \<Rightarrow> real" where
  "residual D b u = sum_list (map2 (\<lambda>row bi. (dot row u - bi)\<^sup>2) D b)"

definition norm_sq :: "real list \<Rightarrow> real" where
  "norm_sq u = sum_list (map (\<lambda>x. x\<^sup>2) u)"

text \<open>
  \<open>u = np.linalg.lstsq(D, b, rcond=None)[0]\<close> for a matrix \<open>D\<close> of nine columns: \<open>u\<close>
  minimises the residual, and has the least norm among the vectors that do.
\<close>

definition is_lstsq :: "real list list \<Rightarrow> real list \<Rightarrow> real list \<Rightarrow> bool" where
  "is_lstsq D b u \<longleftrightarrow>
     length u = 9 \<and>
     (\<forall>w. length w = 9 \<longrightarrow> residual D b u \<le> residual D b w) \<and>
     (\<forall>w. length w = 9 \<and> (\<forall>v. length v = 9 \<longrightarrow> residual D b w \<le> residual D b v)
          \<longrightarrow> norm_sq u \<le> norm_sq w)"

text \<open>The 4x4 array \<open>A\<close> assembled from the nine coefficients, as a list of rows.\<close>

definition quadric_matrix :: "real list \<Rightarrow> real list list" where
  "quadric_matrix u =
     [[u ! 0, u ! 3, u ! 4, u ! 6],
      [u ! 3, u ! 1, u ! 5, u ! 7],
      [u ! 4, u ! 5, u ! 2, u ! 8],
      [u ! 6, u ! 7, u ! 8, - 1]]"

text \<open>\<open>A[:3, :3]\<close> and \<open>A[:3, 3]\<close>.\<close>

definition upper_left3 :: "real list list \<Rightarrow> mat3" where
  "upper_left3 A =
     ((A ! 0 ! 0, A ! 0 ! 1, A ! 0 ! 2),
      (A ! 1 ! 0, A ! 1 ! 1, A ! 1 ! 2),
      (A ! 2 ! 0, A ! 2 ! 1, A ! 2 ! 2))"

definition last_column3 :: "real list list \<Rightarrow> vec3" where
  "last_column3 A = (A ! 0 ! 3, A ! 1 ! 3, A ! 2 ! 3)"

fun mat_neg :: "mat3 \<Rightarrow> mat3" where
  "mat_neg ((m11, m12, m13), (m21, m22, m23), (m31, m32, m33)) =
     ((- m11, - m12, - m13), (- m21, - m22, - m23), (- m31, - m32, - m33))"

fun det3 :: "mat3 \<Rightarrow> real" where
  "det3 ((m11, m12, m13), (m21, m22, m23), (m31, m32, m33)) =
     m11 * (m22 * m33 - m23 * m32) - m12 * (m21 * m33 - m23 * m31) + m13 * (m21 * m32 - m22 * m31)"

text \<open>\<open>np.linalg.solve(M, v)\<close> for a 3x3 system: \<open>LinAlgError\<close> when \<open>M\<close> is singular.\<close>

fun solve3 :: "mat3 \<Rightarrow> vec3 \<Rightarrow> py_exception + vec3" where
  "solve3 ((m11, m12, m13), (m21, m22, m23), (m31, m32, m33)) (v1, v2, v3) =
     (let d = det3 ((m11, m12, m13), (m21, m22, m23), (m31, m32, m33))
      in if d = 0 then Inl LinAlgError
         else Inr (det3 ((v1, m12, m13), (v2, m22, m23), (v3, m32, m33)) / d,
                   det3 ((m11, v1, m13), (m21, v2, m23), (m31, v3, m33)) / d,
                   det3 ((m11, m12, v1), (m21, m22, v2), (m31, m32, v3)) / d))"

text \<open>\<open>T = np.eye(4); T[:3, 3] = center\<close>.\<close>

fun translation :: "vec3 \<Rightarrow> real list list" where
  "translation (c1, c2, c3) =
     [[1, 0, 0, c1],
      [0, 1, 0, c2],
      [0, 0, 1, c3],
      [0, 0, 0, 1]]"

text \<open>Products and transposes of 4x4 arrays.\<close>

definition mat_mul4 :: "real list list \<Rightarrow> real list list \<Rightarrow> real list list" where
  "mat_mul4 A B =
     map (\<lambda>i. map (\<lambda>j. A ! i ! 0 * B ! 0 ! j + A ! i ! 1 * B ! 1 ! j
                         + A ! i ! 2 * B ! 2 ! j + A ! i ! 3 * B ! 3 ! j) [0, 1, 2, 3]) [0, 1, 2, 3]"

definition transpose4 :: "real list list \<Rightarrow> real list list" where
  "transpose4 A = map (\<lambda>i. map (\<lambda>j. A ! j ! i) [0, 1, 2, 3]) [0, 1, 2, 3]"

text \<open>\<open>R[:3, :3] / c\<close> for a scalar \<open>c\<close> that is not zero.\<close>

fun mat_div :: "mat3 \<Rightarrow> real \<Rightarrow> mat3" where
  "mat_div (r1, r2, r3) c = (vec_div r1 c, vec_div r2 c, vec_div r3 c)"

text \<open>Column \<open>k\<close> of a 3x3 array.\<close>

fun column1 :: "mat3 \<Rightarrow> vec3" where
  "column1 ((m11, m12, m13), (m21, m22, m23), (m31, m32, m33)) = (m11, m21, m31)"

fun column2 :: "mat3 \<Rightarrow> vec3" where
  "column2 ((m11, m12, m13), (m21, m22, m23), (m31, m32, m33)) = (m12, m22, m32)"

fun column3 :: "mat3 \<Rightarrow> vec3" where
  "column3 ((m11, m12, m13), (m21, m22, m23), (m31, m32, m33)) = (m13, m23, m33)"

text \<open>
  \<open>evals, evecs = np.linalg.eig(M)\<close> for a real symmetric \<open>M\<close>: column \<open>k\<close> of \<open>evecs\<close> is
  a unit eigenvector for \<open>evals[k]\<close>, and the columns are independent.
\<close>

definition is_eig :: "mat3 \<Rightarrow> vec3 \<Rightarrow> mat3 \<Rightarrow> bool" where
  "is_eig M evals evecs \<longleftrightarrow>
     (case evals of (w1, w2, w3) \<Rightarrow>
        mat_vec M (column1 evecs) = vec_times (column1 evecs) w1 \<and>
        mat_vec M (column2 evecs) = vec_times (column2 evecs) w2 \<and>
        mat_vec M (column3 evecs) = vec_times (column3 evecs) w3 \<and>
        norm3 (column1 evecs) = 1 \<and> norm3 (column2 evecs) = 1 \<and> norm3 (column3 evecs) = 1 \<and>
        det3 evecs \<noteq> 0)"

text \<open>\<open>np.sqrt\<close> of a float64 (\<open>nan\<close> below zero) and \<open>1.0 / x\<close> (\<open>inf\<close> at zero).\<close>

definition np_sqrt :: "real \<Rightarrow> np_float" where
  "np_sqrt x = (if x < 0 then NaN else Finite (sqrt x))"

fun np_reciprocal :: "np_float \<Rightarrow> np_float" where
  "np_reciprocal (Finite x) = np_divide 1 x"
| "np_reciprocal PosInf = Finite 0"
| "np_reciprocal NegInf = Finite 0"
| "np_reciprocal NaN = NaN"

definition radius_of :: "real \<Rightarrow> np_float" where
  "radius_of eval = np_reciprocal (np_sqrt eval)"

text \<open>The value \<open>center, radii, evecs\<close> that \<open>fit_ellipsoid\<close> returns.\<close>

type_synonym ellipsoid = "vec3 \<times> (np_float \<times> np_float \<times> np_float) \<times> mat3"

text \<open>The three routines: a result, or the exception raised.\<close>

record numpy_linalg =
  np_lstsq :: "real list list \<Rightarrow> real list \<Rightarrow> py_exception + real list"
  np_solve :: "mat3 \<Rightarrow> vec3 \<Rightarrow> py_exception + vec3"
  np_eig :: "mat3 \<Rightarrow> py_exception + vec3 \<times> mat3"

text \<open>The system \<open>np.linalg.solve(-A[:3, :3], A[:3, 3])\<close> for the center.\<close>

definition center_matrix :: "real list \<Rightarrow> mat3" where
  "center_matrix u = mat_neg (upper_left3 (quadric_matrix u))"

definition center_rhs :: "real list \<Rightarrow> vec3" where
  "center_rhs u = last_column3 (quadric_matrix u)"

text \<open>\<open>R = T.dot(A).dot(T.T)\<close> for \<open>T = np.eye(4); T[:3, 3] = center\<close>.\<close>

definition translated :: "real list \<Rightarrow> vec3 \<Rightarrow> real list list" where
  "translated u center =
     mat_mul4 (mat_mul4 (translation center) (quadric_matrix u)) (transpose4 (translation center))"

text \<open>
  The function. An exception of a routine ends it. \<open>np.linalg.eig\<close> raises \<open>LinAlgError\<close>
  on an array with \<open>inf\<close> or \<open>nan\<close>, which is what the division by \<open>-R[3, 3]\<close> leaves when
  that is zero.
\<close>

definition fit_ellipsoid ::
  "numpy_linalg \<Rightarrow> real list \<Rightarrow> real list \<Rightarrow> real list \<Rightarrow> py_exception + ellipsoid" where
  "fit_ellipsoid np X Y Z =
     (let D = design_matrix X Y Z;
          b = ones_like X
      in case np_lstsq np D b of
           Inl e \<Rightarrow> Inl e
         | Inr u \<Rightarrow>
             (case np_solve np (center_matrix u) (center_rhs u) of
                Inl e \<Rightarrow> Inl e
              | Inr center \<Rightarrow>
                  (let R = translated u center
                   in if - (R ! 3 ! 3) = 0 then Inl LinAlgError
                      else (case np_eig np (mat_div (upper_left3 R) (- (R ! 3 ! 3))) of
                              Inl e \<Rightarrow> Inl e
                            | Inr ((w1, w2, w3), evecs) \<Rightarrow>
                                Inr (center, (radius_of w1, radius_of w2, radius_of w3), evecs)))))"

text \<open>A radius that is a strictly positive real number.\<close>

fun positive_real :: "np_float \<Rightarrow> bool" where
  "positive_real (Finite x) = (0 < x)"
| "positive_real PosInf = False"
| "positive_real NegInf = False"
| "positive_real NaN = False"

text \<open>
  Nine points of the hyperboloid \<open>x^2 + y^2 - z^2 = 1\<close>: the four unit points of the x and y
  axes and five corners of the cube. They are neither collinear nor coplanar.
\<close>

definition hyperboloid_X :: "real list" where
  "hyperboloid_X = [1, - 1, 0, 0, 1, 1, 1, - 1, - 1]"

definition hyperboloid_Y :: "real list" where
  "hyperboloid_Y = [0, 0, 1, - 1, 1, 1, - 1, 1, - 1]"

definition hyperboloid_Z :: "real list" where
  "hyperboloid_Z = [0, 0, 0, 0, 1, - 1, 1, 1, 1]"

text \<open>
  The routines on the hyperboloid points: the least-squares solution is exact, the center
  system is regular, and the matrix handed to \<open>np.linalg.eig\<close> is diagonal. On any other
  argument these stand-ins raise.
\<close>

definition hyperboloid_linalg :: numpy_linalg where
  "hyperboloid_linalg =
     \<lparr>np_lstsq = (\<lambda>D b. if D = design_matrix hyperboloid_X hyperboloid_Y hyperboloid_Z
                              \<and> b = ones_like hyperboloid_X
                           then Inr [1, 1, - 1, 0, 0, 0, 0, 0, 0] else Inl LinAlgError),
      np_solve = solve3,
      np_eig = (\<lambda>M. if M = ((1, 0, 0), (0, 1, 0), (0, 0, - 1))
                      then Inr ((1, 1, - 1), identity3) else Inl LinAlgError)\<rparr>"

section \<open>position.py: drift metrics\<close>

text \<open>The dictionary \<open>drift_metrics\<close>; the keys added only with a known distance are options.\<close>

record drift_metrics =
  final_position :: vec3
  final_displacement :: real
  drift_magnitude :: real
  known_distance :: "real option"
  max_displacement :: "real option"
  max_displacement_error :: "real option"
  max_displacement_error_percent :: "np_float option"
  return_error :: "real option"

text \<open>\<open>.iloc[-1]\<close> raises \<open>IndexError\<close> on an empty frame.\<close>

definition calculate_drift :: "position_row list \<Rightarrow> real option \<Rightarrow> py_exception + drift_metrics" where
  "calculate_drift position_data distance =
     (case position_data of
        [] \<Rightarrow> Inl IndexError
      | r # rs \<Rightarrow>
          (let final_pos = (px (last position_data), py (last position_data), pz (last position_data));
               final_disp = displacement (last position_data);
               metrics = \<lparr>final_position = final_pos,
                          final_displacement = final_disp,
                          drift_magnitude = norm3 final_pos,
                          known_distance = None, max_displacement = None,
                          max_displacement_error = None,
                          max_displacement_error_percent = None, return_error = None\<rparr>
           in (case distance of
                 None \<Rightarrow> Inr metrics
               | Some d \<Rightarrow>
                   (let max_disp = fold max (map displacement rs) (displacement r)
                    in Inr (metrics\<lparr>known_distance := Some d,
                                    max_displacement := Some max_disp,
                                    max_displacement_error := Some \<bar>max_disp - d\<bar>,
                                    max_displacement_error_percent :=
                                      Some (np_multiply (np_divide \<bar>max_disp - d\<bar> d) 100),
                                    return_error := Some (norm3 final_pos)\<rparr>)))))"

section \<open>The integration loops, one axis at a time\<close>

text \<open>
  The loop bodies treat the three axes alike and separately. \<open>axis_step\<close> is what
  \<open>zupt_step\<close> does to the velocity and position arrays of one axis; \<open>axis_inv\<close> is
  the loop invariant before iteration \<open>m\<close>: the arrays keep their length, index 0 and the
  indices from \<open>m\<close> on still hold the initial zeros, and the recurrence holds below \<open>m\<close>.
\<close>

fun axis_step ::
  "real list \<Rightarrow> real list \<Rightarrow> bool list \<Rightarrow> nat \<Rightarrow> real list \<times> real list \<Rightarrow> real list \<times> real list" where
  "axis_step time a stationary i (v, p) =
     (let dt = time ! i - time ! (i - 1);
          v = (if \<not> stationary ! i then v[i := v ! (i - 1) + (1 / 2) * (a ! (i - 1) + a ! i) * dt]
               else v[i := 0]);
          p = p[i := p ! (i - 1) + (1 / 2) * (v ! (i - 1) + v ! i) * dt]
      in (v, p))"

fun axis_x :: "arrays \<Rightarrow> real list \<times> real list" where
  "axis_x (v_x, v_y, v_z, p_x, p_y, p_z) = (v_x, p_x)"

fun axis_y :: "arrays \<Rightarrow> real list \<times> real list" where
  "axis_y (v_x, v_y, v_z, p_x, p_y, p_z) = (v_y, p_y)"

fun axis_z :: "arrays \<Rightarrow> real list \<times> real list" where
  "axis_z (v_x, v_y, v_z, p_x, p_y, p_z) = (v_z, p_z)"

definition axis_inv ::
  "real list \<Rightarrow> real list \<Rightarrow> bool list \<Rightarrow> nat \<Rightarrow> nat \<Rightarrow> real list \<times> real list \<Rightarrow> bool" where
  "axis_inv time a stationary n m vp =
     (case vp of (v, p) \<Rightarrow>
        length v = n \<and> length p = n \<and>
        (\<forall>j < n. j = 0 \<or> m \<le> j \<longrightarrow> v ! j = 0 \<and> p ! j = 0) \<and>
        (\<forall>i. 1 \<le> i \<and> i < m \<longrightarrow>
           v ! i = (if stationary ! i then 0
                    else v ! (i - 1) + (1 / 2) * (a ! (i - 1) + a ! i) * (time ! i - time ! (i - 1))) \<and>
           p ! i = p ! (i - 1) + (1 / 2) * (v ! (i - 1) + v ! i) * (time ! i - time ! (i - 1))))"

text \<open>
  Both modes as one loop: the plain loop is the zero-velocity loop with no index flagged
  (\<open>plain_fold_zupt\<close> below), so the frames of both are \<open>integrate_rows\<close>.
\<close>

definition integrate_rows ::
  "bool \<Rightarrow> sample list \<Rightarrow> bool list option \<Rightarrow> bool list \<Rightarrow> position_row list" where
  "integrate_rows units data column flags =
     build_rows units data column
       (fold (zupt_step (map seconds_elapsed data)
                (map (\<lambda>s. to_mps2 units (x_acc s)) data)
                (map (\<lambda>s. to_mps2 units (y_acc s)) data)
                (map (\<lambda>s. to_mps2 units (z_acc s)) data) flags)
          [1..<length data] (zeros (length data)))"

section \<open>Example series\<close>

text \<open>A triangular pulse along x: \<open>t = [0, 1, 2]\<close>, \<open>x_acc = [0, 2, 0]\<close>.\<close>

definition pulse_series :: "sample list" where
  "pulse_series =
     [\<lparr>seconds_elapsed = 0, x_acc = 0, y_acc = 0, z_acc = 0\<rparr>,
      \<lparr>seconds_elapsed = 1, x_acc = 2, y_acc = 0, z_acc = 0\<rparr>,
      \<lparr>seconds_elapsed = 2, x_acc = 0, y_acc = 0, z_acc = 0\<rparr>]"

text \<open>Two samples whose time runs backwards, under a constant acceleration along x.\<close>

definition backwards_series :: "sample list" where
  "backwards_series =
     [\<lparr>seconds_elapsed = 0, x_acc = 2, y_acc = 0, z_acc = 0\<rparr>,
      \<lparr>seconds_elapsed = - 1, x_acc = 2, y_acc = 0, z_acc = 0\<rparr>]"

text \<open>Two samples with the same time stamp.\<close>

definition repeated_series :: "sample list" where
  "repeated_series =
     [\<lparr>seconds_elapsed = 0, x_acc = 2, y_acc = 0, z_acc = 0\<rparr>,
      \<lparr>seconds_elapsed = 0, x_acc = 4, y_acc = 0, z_acc = 0\<rparr>]"

text \<open>
  A motion that stops: \<open>t = [0, 1, 2]\<close>, \<open>x_acc = [0, 2, 2]\<close>. With a window of 2 and the
  threshold 0.01 the rolling variance is 2 at index 1 and 0 at index 2.
\<close>

definition stop_series :: "sample list" where
  "stop_series =
     [\<lparr>seconds_elapsed = 0, x_acc = 0, y_acc = 0, z_acc = 0\<rparr>,
      \<lparr>seconds_elapsed = 1, x_acc = 2, y_acc = 0, z_acc = 0\<rparr>,
      \<lparr>seconds_elapsed = 2, x_acc = 2, y_acc = 0, z_acc = 0\<rparr>]"



text \<open>A frame of one row at time 0 with the given acceleration.\<close>

definition one_sample :: "vec3 \<Rightarrow> sample list" where
  "one_sample a = [\<lparr>seconds_elapsed = 0, x_acc = fst a, y_acc = fst (snd a), z_acc = snd (snd a)\<rparr>]"

section \<open>Properties of the integration loops\<close>

lemma axis_x_zupt_step:
  "axis_x (zupt_step time ax ay az st i arrs) = axis_step time ax st i (axis_x arrs)"
  by (cases arrs) (simp add: Let_def)

lemma axis_y_zupt_step:
  "axis_y (zupt_step time ax ay az st i arrs) = axis_step time ay st i (axis_y arrs)"
  by (cases arrs) (simp add: Let_def)

lemma axis_z_zupt_step:
  "axis_z (zupt_step time ax ay az st i arrs) = axis_step time az st i (axis_z arrs)"
  by (cases arrs) (simp add: Let_def)

lemma axis_x_zupt_fold:
  "axis_x (fold (zupt_step time ax ay az st) is arrs) = fold (axis_step time ax st) is (axis_x arrs)"
  by (induction "is" arbitrary: arrs) (simp_all add: axis_x_zupt_step)

lemma axis_inv_zeros: "axis_inv time a st n (Suc 0) (replicate n 0, replicate n 0)"
  by (simp add: axis_inv_def)

lemma axis_inv_step:
  assumes "axis_inv time a st n m vp" "1 \<le> m" "m < n"
  shows "axis_inv time a st n (Suc m) (axis_step time a st m vp)"
proof -
  obtain v p where vp: "vp = (v, p)" by (cases vp)
  from assms have len: "length v = n" "length p = n"
    and zero: "\<And>j. j < n \<Longrightarrow> j = 0 \<or> m \<le> j \<Longrightarrow> v ! j = 0 \<and> p ! j = 0"
    and rec: "\<And>i. 1 \<le> i \<Longrightarrow> i < m \<Longrightarrow>
           v ! i = (if st ! i then 0
                    else v ! (i - 1) + (1 / 2) * (a ! (i - 1) + a ! i) * (time ! i - time ! (i - 1))) \<and>
           p ! i = p ! (i - 1) + (1 / 2) * (v ! (i - 1) + v ! i) * (time ! i - time ! (i - 1))"
    unfolding vp axis_inv_def by auto
  define v' where "v' = (if \<not> st ! m then v[m := v ! (m - 1) + (1 / 2) * (a ! (m - 1) + a ! m) * (time ! m - time ! (m - 1))]
               else v[m := 0])"
  define p' where "p' = p[m := p ! (m - 1) + (1 / 2) * (v' ! (m - 1) + v' ! m) * (time ! m - time ! (m - 1))]"
  have step: "axis_step time a st m vp = (v', p')"
    unfolding vp v'_def p'_def by (simp add: Let_def)
  have len': "length v' = n" "length p' = n"
    using len by (simp_all add: v'_def p'_def)
  have same: "v' ! j = v ! j" "p' ! j = p ! j" if "j \<noteq> m" for j
    using that by (simp_all add: v'_def p'_def)
  have atm: "v' ! m = (if st ! m then 0
                    else v ! (m - 1) + (1 / 2) * (a ! (m - 1) + a ! m) * (time ! m - time ! (m - 1)))"
      "p' ! m = p ! (m - 1) + (1 / 2) * (v' ! (m - 1) + v' ! m) * (time ! m - time ! (m - 1))"
    using len assms(3) by (simp_all add: v'_def p'_def)
  have z: "v' ! j = 0 \<and> p' ! j = 0" if "j < n" "j = 0 \<or> Suc m \<le> j" for j
    using that zero[of j] same[of j] assms(2) by auto
  have r: "v' ! i = (if st ! i then 0
                    else v' ! (i - 1) + (1 / 2) * (a ! (i - 1) + a ! i) * (time ! i - time ! (i - 1))) \<and>
           p' ! i = p' ! (i - 1) + (1 / 2) * (v' ! (i - 1) + v' ! i) * (time ! i - time ! (i - 1))"
    if "1 \<le> i" "i < Suc m" for i
  proof (cases "i = m")
    case True
    have "m - 1 \<noteq> m" using assms(2) by simp
    then show ?thesis using atm same[of "m - 1"] True by simp
  next
    case False
    then have "i < m" "i - 1 \<noteq> m" using that by simp_all
    then show ?thesis using rec[of i] same[of i] same[of "i - 1"] that False by simp
  qed
  show ?thesis
    unfolding step axis_inv_def using len' z r by simp
qed

lemma axis_inv_fold:
  assumes "1 \<le> m" "m \<le> n"
  shows "axis_inv time a st n m (fold (axis_step time a st) [Suc 0..<m] (replicate n 0, replicate n 0))"
  using assms
proof (induction m)
  case 0
  then show ?case by simp
next
  case (Suc m)
  show ?case
  proof (cases "m = 0")
    case True
    then show ?thesis by (simp add: axis_inv_zeros)
  next
    case False
    with Suc have "axis_inv time a st n m (fold (axis_step time a st) [Suc 0..<m] (replicate n 0, replicate n 0))"
      by simp
    from axis_inv_step[OF this] False Suc.prems show ?thesis
      by simp
  qed
qed

lemma axis_y_zupt_fold:
  "axis_y (fold (zupt_step time ax ay az st) is arrs) = fold (axis_step time ay st) is (axis_y arrs)"
  by (induction "is" arbitrary: arrs) (simp_all add: axis_y_zupt_step)

lemma axis_z_zupt_fold:
  "axis_z (fold (zupt_step time ax ay az st) is arrs) = fold (axis_step time az st) is (axis_z arrs)"
  by (induction "is" arbitrary: arrs) (simp_all add: axis_z_zupt_step)

lemma plain_step_zupt:
  "\<not> st ! i \<Longrightarrow> plain_step time ax ay az i arrs = zupt_step time ax ay az st i arrs"
  by (cases arrs) (simp add: Let_def)

lemma plain_fold_zupt:
  "fold (plain_step time ax ay az) [Suc 0..<n] arrs =
   fold (zupt_step time ax ay az (replicate n False)) [Suc 0..<n] arrs"
  by (rule fold_cong) (auto simp: fun_eq_iff plain_step_zupt)

lemma build_rows_nth:
  "i < length data \<Longrightarrow>
   build_rows units data st arrs ! i =
     \<lparr>seconds_elapsed = seconds_elapsed (data ! i),
      x_acc = x_acc (data ! i), y_acc = y_acc (data ! i), z_acc = z_acc (data ! i),
      x_acc_mps2 = to_mps2 units (x_acc (data ! i)),
      y_acc_mps2 = to_mps2 units (y_acc (data ! i)),
      z_acc_mps2 = to_mps2 units (z_acc (data ! i)),
      is_stationary = map_option (\<lambda>st. st ! i) st,
      vx = fst (axis_x arrs) ! i, vy = fst (axis_y arrs) ! i, vz = fst (axis_z arrs) ! i,
      px = snd (axis_x arrs) ! i, py = snd (axis_y arrs) ! i, pz = snd (axis_z arrs) ! i,
      displacement = sqrt ((snd (axis_x arrs) ! i)\<^sup>2 + (snd (axis_y arrs) ! i)\<^sup>2
                           + (snd (axis_z arrs) ! i)\<^sup>2)\<rparr>"
  by (cases arrs) (simp add: build_rows_def)

lemma length_build_rows: "length (build_rows units data st arrs) = length data"
  by (cases arrs) (simp add: build_rows_def)


lemma zupt_is_integrate_rows:
  "calculate_position_with_zupt units data thr w =
   integrate_rows units data (Some (detect_stationary_periods data thr w))
     (detect_stationary_periods data thr w)"
  by (simp add: calculate_position_with_zupt_def integrate_rows_def Let_def)

lemma plain_is_integrate_rows:
  "\<not> APPLY_ZUPT cfg \<Longrightarrow>
   calculate_position cfg data =
   integrate_rows (UNITS_IN_MPS2 cfg) data None (replicate (length data) False)"
  by (simp add: calculate_position_def integrate_rows_def Let_def plain_fold_zupt)

lemma length_integrate_rows: "length (integrate_rows units data column flags) = length data"
  by (simp add: integrate_rows_def length_build_rows)

lemma axis_fold_first:
  assumes "0 < n"
  shows "fst (fold (axis_step time a st) [Suc 0..<n] (replicate n 0, replicate n 0)) ! 0 = 0"
    and "snd (fold (axis_step time a st) [Suc 0..<n] (replicate n 0, replicate n 0)) ! 0 = 0"
  using axis_inv_fold[of n n time a st] assms
  by (auto simp: axis_inv_def split: prod.splits)

lemma axis_fold_step:
  fixes time a :: "real list" and st :: "bool list"
  assumes "1 \<le> i" "i < n"
  defines "vp \<equiv> fold (axis_step time a st) [Suc 0..<n] (replicate n 0, replicate n 0)"
  shows "fst vp ! i = (if st ! i then 0
           else fst vp ! (i - 1) + (1 / 2) * (a ! (i - 1) + a ! i) * (time ! i - time ! (i - 1)))"
    and "snd vp ! i = snd vp ! (i - 1) + (1 / 2) * (fst vp ! (i - 1) + fst vp ! i) * (time ! i - time ! (i - 1))"
  using axis_inv_fold[of n n time a st] assms(1,2) unfolding vp_def
  by (auto simp: axis_inv_def split: prod.splits)

lemma integrate_rows_nth:
  assumes "i < length data"
  shows "integrate_rows units data column flags ! i =
     \<lparr>seconds_elapsed = seconds_elapsed (data ! i),
      x_acc = x_acc (data ! i), y_acc = y_acc (data ! i), z_acc = z_acc (data ! i),
      x_acc_mps2 = to_mps2 units (x_acc (data ! i)),
      y_acc_mps2 = to_mps2 units (y_acc (data ! i)),
      z_acc_mps2 = to_mps2 units (z_acc (data ! i)),
      is_stationary = map_option (\<lambda>st. st ! i) column,
      vx = fst (fold (axis_step (map seconds_elapsed data) (map (\<lambda>s. to_mps2 units (x_acc s)) data) flags)
                 [Suc 0..<length data] (replicate (length data) 0, replicate (length data) 0)) ! i,
      vy = fst (fold (axis_step (map seconds_elapsed data) (map (\<lambda>s. to_mps2 units (y_acc s)) data) flags)
                 [Suc 0..<length data] (replicate (length data) 0, replicate (length data) 0)) ! i,
      vz = fst (fold (axis_step (map seconds_elapsed data) (map (\<lambda>s. to_mps2 units (z_acc s)) data) flags)
                 [Suc 0..<length data] (replicate (length data) 0, replicate (length data) 0)) ! i,
      px = snd (fold (axis_step (map seconds_elapsed data) (map (\<lambda>s. to_mps2 units (x_acc s)) data) flags)
                 [Suc 0..<length data] (replicate (length data) 0, replicate (length data) 0)) ! i,
      py = snd (fold (axis_step (map seconds_elapsed data) (map (\<lambda>s. to_mps2 units (y_acc s)) data) flags)
                 [Suc 0..<length data] (replicate (length data) 0, replicate (length data) 0)) ! i,
      pz = snd (fold (axis_step (map seconds_elapsed data) (map (\<lambda>s. to_mps2 units (z_acc s)) data) flags)
                 [Suc 0..<length data] (replicate (length data) 0, replicate (length data) 0)) ! i,
      displacement = sqrt (
        (snd (fold (axis_step (map seconds_elapsed data) (map (\<lambda>s. to_mps2 units (x_acc s)) data) flags)
                 [Suc 0..<length data] (replicate (length data) 0, replicate (length data) 0)) ! i)\<^sup>2 +
        (snd (fold (axis_step (map seconds_elapsed data) (map (\<lambda>s. to_mps2 units (y_acc s)) data) flags)
                 [Suc 0..<length data] (replicate (length data) 0, replicate (length data) 0)) ! i)\<^sup>2 +
        (snd (fold (axis_step (map seconds_elapsed data) (map (\<lambda>s. to_mps2 units (z_acc s)) data) flags)
                 [Suc 0..<length data] (replicate (length data) 0, replicate (length data) 0)) ! i)\<^sup>2)\<rparr>"
  using assms
  by (simp add: integrate_rows_def build_rows_nth axis_x_zupt_fold axis_y_zupt_fold axis_z_zupt_fold zeros_def)

lemma integrate_rows_first:
  fixes units :: bool and column :: "bool list option" and flags :: "bool list"
  assumes "0 < length data"
  defines "r \<equiv> integrate_rows units data column flags ! 0"
  shows "vx r = 0" "vy r = 0" "vz r = 0" "px r = 0" "py r = 0" "pz r = 0"
  unfolding r_def using assms(1)
  by (simp_all add: integrate_rows_nth axis_fold_first)

lemma integrate_rows_step:
  fixes units :: bool and column :: "bool list option" and flags :: "bool list"
  assumes "1 \<le> i" "i < length data"
  defines "r \<equiv> integrate_rows units data column flags ! i"
    and "q \<equiv> integrate_rows units data column flags ! (i - 1)"
  defines "dt \<equiv> seconds_elapsed r - seconds_elapsed q"
  shows "vx r = (if flags ! i then 0 else vx q + (1 / 2) * (x_acc_mps2 q + x_acc_mps2 r) * dt)"
    and "vy r = (if flags ! i then 0 else vy q + (1 / 2) * (y_acc_mps2 q + y_acc_mps2 r) * dt)"
    and "vz r = (if flags ! i then 0 else vz q + (1 / 2) * (z_acc_mps2 q + z_acc_mps2 r) * dt)"
    and "px r = px q + (1 / 2) * (vx q + vx r) * dt"
    and "py r = py q + (1 / 2) * (vy q + vy r) * dt"
    and "pz r = pz q + (1 / 2) * (vz q + vz r) * dt"
proof -
  have i1: "i - 1 < length data" using assms(2) by simp
  note nth = integrate_rows_nth[OF assms(2)] integrate_rows_nth[OF i1]
  note st = axis_fold_step[OF assms(1,2)]
  show "vx r = (if flags ! i then 0 else vx q + (1 / 2) * (x_acc_mps2 q + x_acc_mps2 r) * dt)"
    unfolding r_def q_def dt_def nth using st(1)[of "map seconds_elapsed data" _ flags] assms(1,2) i1
    by (simp del: One_nat_def)
  show "vy r = (if flags ! i then 0 else vy q + (1 / 2) * (y_acc_mps2 q + y_acc_mps2 r) * dt)"
    unfolding r_def q_def dt_def nth using st(1)[of "map seconds_elapsed data" _ flags] assms(1,2) i1
    by (simp del: One_nat_def)
  show "vz r = (if flags ! i then 0 else vz q + (1 / 2) * (z_acc_mps2 q + z_acc_mps2 r) * dt)"
    unfolding r_def q_def dt_def nth using st(1)[of "map seconds_elapsed data" _ flags] assms(1,2) i1
    by (simp del: One_nat_def)
  show "px r = px q + (1 / 2) * (vx q + vx r) * dt"
    unfolding r_def q_def dt_def nth using st(2)[of "map seconds_elapsed data" _ flags] assms(1,2) i1
    by (simp del: One_nat_def)
  show "py r = py q + (1 / 2) * (vy q + vy r) * dt"
    unfolding r_def q_def dt_def nth using st(2)[of "map seconds_elapsed data" _ flags] assms(1,2) i1
    by (simp del: One_nat_def)
  show "pz r = pz q + (1 / 2) * (vz q + vz r) * dt"
    unfolding r_def q_def dt_def nth using st(2)[of "map seconds_elapsed data" _ flags] assms(1,2) i1
    by (simp del: One_nat_def)
qed

lemma calculate_position_integrate_rows:
  "calculate_position cfg data =
   integrate_rows (UNITS_IN_MPS2 cfg) data
     (if APPLY_ZUPT cfg then Some (detect_stationary_periods data (ACC_THRESHOLD cfg) (WINDOW_SIZE cfg))
      else None)
     (if APPLY_ZUPT cfg then detect_stationary_periods data (ACC_THRESHOLD cfg) (WINDOW_SIZE cfg)
      else replicate (length data) False)"
proof (cases "APPLY_ZUPT cfg")
  case True
  then show ?thesis
    by (simp add: calculate_position_def zupt_is_integrate_rows)
next
  case False
  then show ?thesis
    by (simp add: plain_is_integrate_rows)
qed

lemma integrate_rows_time:
  "i < length data \<Longrightarrow>
   seconds_elapsed (integrate_rows units data column flags ! i) = seconds_elapsed (data ! i)"
  by (simp add: integrate_rows_nth)

lemma pulse_rows:
  "calculate_position source_config pulse_series =
     [\<lparr>seconds_elapsed = 0, x_acc = 0, y_acc = 0, z_acc = 0,
       x_acc_mps2 = 0, y_acc_mps2 = 0, z_acc_mps2 = 0, is_stationary = None,
       vx = 0, vy = 0, vz = 0, px = 0, py = 0, pz = 0, displacement = 0\<rparr>,
      \<lparr>seconds_elapsed = 1, x_acc = 2, y_acc = 0, z_acc = 0,
       x_acc_mps2 = 2, y_acc_mps2 = 0, z_acc_mps2 = 0, is_stationary = None,
       vx = 1, vy = 0, vz = 0, px = 1 / 2, py = 0, pz = 0, displacement = 1 / 2\<rparr>,
      \<lparr>seconds_elapsed = 2, x_acc = 0, y_acc = 0, z_acc = 0,
       x_acc_mps2 = 0, y_acc_mps2 = 0, z_acc_mps2 = 0, is_stationary = None,
       vx = 2, vy = 0, vz = 0, px = 2, py = 0, pz = 0, displacement = 2\<rparr>]"
  by (simp add: calculate_position_def source_config_def pulse_series_def build_rows_def
      zeros_def to_mps2_def upt_rec numeral_3_eq_3 numeral_2_eq_2 Let_def real_sqrt_divide)

text \<open>
  C1 (as amended). For the three-sample series with times \<open>[0, 1, 2]\<close> and x-axis
  acceleration \<open>[0, 2, 0]\<close> (y and z zero), plain-mode integration with the source's
  configuration produces x-velocity \<open>[0, 1, 2]\<close> and x-position \<open>[0, 0.5, 2]\<close>; the
  other axes stay at zero. The second trapezoid adds \<open>0.5 * (2 + 0) * 1 = 1\<close> to the velocity.
\<close>

theorem pulse_series_plain_integration:
  "map vx (calculate_position source_config pulse_series) = [0, 1, 2] \<and>
   map px (calculate_position source_config pulse_series) = [0, 1 / 2, 2] \<and>
   map vy (calculate_position source_config pulse_series) = [0, 0, 0] \<and>
   map vz (calculate_position source_config pulse_series) = [0, 0, 0] \<and>
   map py (calculate_position source_config pulse_series) = [0, 0, 0] \<and>
   map pz (calculate_position source_config pulse_series) = [0, 0, 0]"
  by (simp add: pulse_rows)

text \<open>
  C1 as stated fails: the velocity is not \<open>[0, 1, 1]\<close> and the position is not
  \<open>[0, 0.5, 1.5]\<close> on that series.
\<close>

theorem pulse_series_not_as_claimed:
  "\<not> (map vx (calculate_position source_config pulse_series) = [0, 1, 1] \<and>
      map px (calculate_position source_config pulse_series) = [0, 1 / 2, 3 / 2])"
  by (simp add: pulse_rows)

text \<open>
  C3. For every input series, in plain and in zero-velocity mode, the integrator returns
  one state per input sample, and the first state has velocity \<open>(0,0,0)\<close> and position
  \<open>(0,0,0)\<close>.
\<close>

theorem first_state_zero_one_state_per_sample:
  "length (calculate_position cfg data) = length data \<and>
   length (calculate_position_with_zupt units data thr w) = length data \<and>
   (data \<noteq> [] \<longrightarrow>
      vx (calculate_position cfg data ! 0) = 0 \<and>
      vy (calculate_position cfg data ! 0) = 0 \<and>
      vz (calculate_position cfg data ! 0) = 0 \<and>
      px (calculate_position cfg data ! 0) = 0 \<and>
      py (calculate_position cfg data ! 0) = 0 \<and>
      pz (calculate_position cfg data ! 0) = 0 \<and>
      vx (calculate_position_with_zupt units data thr w ! 0) = 0 \<and>
      vy (calculate_position_with_zupt units data thr w ! 0) = 0 \<and>
      vz (calculate_position_with_zupt units data thr w ! 0) = 0 \<and>
      px (calculate_position_with_zupt units data thr w ! 0) = 0 \<and>
      py (calculate_position_with_zupt units data thr w ! 0) = 0 \<and>
      pz (calculate_position_with_zupt units data thr w ! 0) = 0)"
  unfolding calculate_position_integrate_rows zupt_is_integrate_rows
  by (simp add: length_integrate_rows integrate_rows_first)

theorem first_state_zero_one_state_per_sample_witness:
  "pulse_series \<noteq> [] \<and>
   length (calculate_position source_config pulse_series) = 3 \<and>
   length (calculate_position_with_zupt True pulse_series (1 / 100) 5) = 3 \<and>
   vx (calculate_position source_config pulse_series ! 0) = 0 \<and>
   px (calculate_position source_config pulse_series ! 0) = 0 \<and>
   vx (calculate_position_with_zupt True pulse_series (1 / 100) 5 ! 0) = 0 \<and>
   px (calculate_position_with_zupt True pulse_series (1 / 100) 5 ! 0) = 0"
proof -
  have ne: "pulse_series \<noteq> []" and len: "length pulse_series = 3"
    by (simp_all add: pulse_series_def)
  show ?thesis
    using first_state_zero_one_state_per_sample [of source_config pulse_series True "1 / 100" 5] ne len
    by simp
qed

text \<open>
  C2. In zero-velocity mode, at every index \<open>i \<ge> 1\<close> whose sample is detected stationary,
  the velocity is \<open>(0,0,0)\<close> whatever the previous velocity was; at the other indices it is
  the previous velocity plus the trapezoid of the accelerations. The position update is the
  trapezoidal rule over the velocities at every index, the same rule as in plain mode, where
  the velocity is always the previous velocity plus the trapezoid.
\<close>

theorem zupt_clamps_velocity:
  assumes "1 \<le> i" and "i < length data"
  shows
    "(let stationary = detect_stationary_periods data thr w;
          rows = calculate_position_with_zupt units data thr w;
          plain = calculate_position
                    \<lparr>UNITS_IN_MPS2 = units, APPLY_ZUPT = False, ACC_THRESHOLD = thr, WINDOW_SIZE = w\<rparr> data;
          dt = seconds_elapsed (data ! i) - seconds_elapsed (data ! (i - 1));
          ax = (1 / 2) * (to_mps2 units (x_acc (data ! (i - 1))) + to_mps2 units (x_acc (data ! i))) * dt;
          ay = (1 / 2) * (to_mps2 units (y_acc (data ! (i - 1))) + to_mps2 units (y_acc (data ! i))) * dt;
          az = (1 / 2) * (to_mps2 units (z_acc (data ! (i - 1))) + to_mps2 units (z_acc (data ! i))) * dt
      in (stationary ! i \<longrightarrow> vx (rows ! i) = 0 \<and> vy (rows ! i) = 0 \<and> vz (rows ! i) = 0) \<and>
         (\<not> stationary ! i \<longrightarrow>
            vx (rows ! i) = vx (rows ! (i - 1)) + ax \<and>
            vy (rows ! i) = vy (rows ! (i - 1)) + ay \<and>
            vz (rows ! i) = vz (rows ! (i - 1)) + az) \<and>
         px (rows ! i) = px (rows ! (i - 1)) + (1 / 2) * (vx (rows ! (i - 1)) + vx (rows ! i)) * dt \<and>
         py (rows ! i) = py (rows ! (i - 1)) + (1 / 2) * (vy (rows ! (i - 1)) + vy (rows ! i)) * dt \<and>
         pz (rows ! i) = pz (rows ! (i - 1)) + (1 / 2) * (vz (rows ! (i - 1)) + vz (rows ! i)) * dt \<and>
         vx (plain ! i) = vx (plain ! (i - 1)) + ax \<and>
         vy (plain ! i) = vy (plain ! (i - 1)) + ay \<and>
         vz (plain ! i) = vz (plain ! (i - 1)) + az \<and>
         px (plain ! i) = px (plain ! (i - 1)) + (1 / 2) * (vx (plain ! (i - 1)) + vx (plain ! i)) * dt \<and>
         py (plain ! i) = py (plain ! (i - 1)) + (1 / 2) * (vy (plain ! (i - 1)) + vy (plain ! i)) * dt \<and>
         pz (plain ! i) = pz (plain ! (i - 1)) + (1 / 2) * (vz (plain ! (i - 1)) + vz (plain ! i)) * dt)"
proof -
  have i1: "i - 1 < length data" using assms(2) by simp
  note t = integrate_rows_time[OF assms(2)] integrate_rows_time[OF i1]
  note a = integrate_rows_nth[OF assms(2)] integrate_rows_nth[OF i1]
  note s = integrate_rows_step[OF assms(1,2)]
  have acc: "x_acc_mps2 (integrate_rows units data column flags ! k) = to_mps2 units (x_acc (data ! k))"
       "y_acc_mps2 (integrate_rows units data column flags ! k) = to_mps2 units (y_acc (data ! k))"
       "z_acc_mps2 (integrate_rows units data column flags ! k) = to_mps2 units (z_acc (data ! k))"
    if "k < length data" for k column flags
    using that by (simp_all add: integrate_rows_nth)
  have plain_flag: "\<not> replicate (length data) False ! i"
    using assms(2) by simp
  show ?thesis
    unfolding Let_def calculate_position_integrate_rows zupt_is_integrate_rows
    using
      s(1)[of units "Some (detect_stationary_periods data thr w)" "detect_stationary_periods data thr w"]
      s(2)[of units "Some (detect_stationary_periods data thr w)" "detect_stationary_periods data thr w"]
      s(3)[of units "Some (detect_stationary_periods data thr w)" "detect_stationary_periods data thr w"]
      s(4)[of units "Some (detect_stationary_periods data thr w)" "detect_stationary_periods data thr w"]
      s(5)[of units "Some (detect_stationary_periods data thr w)" "detect_stationary_periods data thr w"]
      s(6)[of units "Some (detect_stationary_periods data thr w)" "detect_stationary_periods data thr w"]
      s(1)[of units None "replicate (length data) False"]
      s(2)[of units None "replicate (length data) False"]
      s(3)[of units None "replicate (length data) False"]
      s(4)[of units None "replicate (length data) False"]
      s(5)[of units None "replicate (length data) False"]
      s(6)[of units None "replicate (length data) False"]
      plain_flag
    by (simp add: t acc[OF assms(2)] acc[OF i1] del: One_nat_def)
qed

lemma stop_stationary: "detect_stationary_periods stop_series (1 / 100) 2 = [True, False, True]"
  by (simp add: detect_stationary_periods_def rolling_var_def window_var_def acc_mag_def
      stop_series_def upt_rec numeral_3_eq_3 numeral_2_eq_2)

lemma stop_rows:
  "calculate_position_with_zupt True stop_series (1 / 100) 2 =
     [\<lparr>seconds_elapsed = 0, x_acc = 0, y_acc = 0, z_acc = 0,
       x_acc_mps2 = 0, y_acc_mps2 = 0, z_acc_mps2 = 0, is_stationary = Some True,
       vx = 0, vy = 0, vz = 0, px = 0, py = 0, pz = 0, displacement = 0\<rparr>,
      \<lparr>seconds_elapsed = 1, x_acc = 2, y_acc = 0, z_acc = 0,
       x_acc_mps2 = 2, y_acc_mps2 = 0, z_acc_mps2 = 0, is_stationary = Some False,
       vx = 1, vy = 0, vz = 0, px = 1 / 2, py = 0, pz = 0, displacement = 1 / 2\<rparr>,
      \<lparr>seconds_elapsed = 2, x_acc = 2, y_acc = 0, z_acc = 0,
       x_acc_mps2 = 2, y_acc_mps2 = 0, z_acc_mps2 = 0, is_stationary = Some True,
       vx = 0, vy = 0, vz = 0, px = 1, py = 0, pz = 0, displacement = 1\<rparr>]"
  unfolding calculate_position_with_zupt_def stop_stationary
  by (simp add: stop_series_def build_rows_def
      zeros_def to_mps2_def upt_rec numeral_3_eq_3 numeral_2_eq_2 Let_def real_sqrt_divide)

theorem zupt_clamps_velocity_witness:
  "(1::nat) \<le> 2 \<and> 2 < length stop_series \<and>
   detect_stationary_periods stop_series (1 / 100) 2 ! 2 \<and>
   vx (calculate_position_with_zupt True stop_series (1 / 100) 2 ! 1) = 1 \<and>
   vx (calculate_position_with_zupt True stop_series (1 / 100) 2 ! 2) = 0 \<and>
   vy (calculate_position_with_zupt True stop_series (1 / 100) 2 ! 2) = 0 \<and>
   vz (calculate_position_with_zupt True stop_series (1 / 100) 2 ! 2) = 0 \<and>
   px (calculate_position_with_zupt True stop_series (1 / 100) 2 ! 2) =
     px (calculate_position_with_zupt True stop_series (1 / 100) 2 ! 1)
       + (1 / 2) * (vx (calculate_position_with_zupt True stop_series (1 / 100) 2 ! 1) + 0) * 1 \<and>
   px (calculate_position_with_zupt True stop_series (1 / 100) 2 ! 2) = 1"
proof -
  have a: "(1::nat) \<le> 2" by simp
  have b: "2 < length stop_series" by (simp add: stop_series_def)
  have c: "detect_stationary_periods stop_series (1 / 100) 2 ! 2"
    by (simp add: stop_stationary)
  have "detect_stationary_periods stop_series (1 / 100) 2 ! 2 \<longrightarrow>
          vx (calculate_position_with_zupt True stop_series (1 / 100) 2 ! 2) = 0 \<and>
          vy (calculate_position_with_zupt True stop_series (1 / 100) 2 ! 2) = 0 \<and>
          vz (calculate_position_with_zupt True stop_series (1 / 100) 2 ! 2) = 0"
    using zupt_clamps_velocity [OF a b, where units = True and thr = "1 / 100" and w = 2]
    unfolding Let_def by blast
  with c have v: "vx (calculate_position_with_zupt True stop_series (1 / 100) 2 ! 2) = 0"
    "vy (calculate_position_with_zupt True stop_series (1 / 100) 2 ! 2) = 0"
    "vz (calculate_position_with_zupt True stop_series (1 / 100) 2 ! 2) = 0"
    by blast+
  have e: "vx (calculate_position_with_zupt True stop_series (1 / 100) 2 ! 1) = 1"
    "px (calculate_position_with_zupt True stop_series (1 / 100) 2 ! 2) = 1"
    "px (calculate_position_with_zupt True stop_series (1 / 100) 2 ! 2) =
     px (calculate_position_with_zupt True stop_series (1 / 100) 2 ! 1)
       + (1 / 2) * (vx (calculate_position_with_zupt True stop_series (1 / 100) 2 ! 1) + 0) * 1"
    by (simp_all add: stop_rows)
  show ?thesis
    using a b c v e by blast
qed

lemma backwards_rows:
  "calculate_position source_config backwards_series =
     [\<lparr>seconds_elapsed = 0, x_acc = 2, y_acc = 0, z_acc = 0,
       x_acc_mps2 = 2, y_acc_mps2 = 0, z_acc_mps2 = 0, is_stationary = None,
       vx = 0, vy = 0, vz = 0, px = 0, py = 0, pz = 0, displacement = 0\<rparr>,
      \<lparr>seconds_elapsed = - 1, x_acc = 2, y_acc = 0, z_acc = 0,
       x_acc_mps2 = 2, y_acc_mps2 = 0, z_acc_mps2 = 0, is_stationary = None,
       vx = - 2, vy = 0, vz = 0, px = 1, py = 0, pz = 0, displacement = 1\<rparr>]"
  by (simp add: calculate_position_def source_config_def backwards_series_def build_rows_def
      zeros_def to_mps2_def upt_rec numeral_2_eq_2 Let_def)

text \<open>
  C4 as stated fails for a negative time step: on two samples with \<open>t = [0, -1]\<close> and
  x-acceleration \<open>[2, 2]\<close> the plain integrator moves velocity and position at index 1.
\<close>

theorem negative_dt_updates_state:
  "seconds_elapsed (backwards_series ! 1) - seconds_elapsed (backwards_series ! 0) \<le> 0 \<and>
   vx (calculate_position source_config backwards_series ! 1) = - 2 \<and>
   vx (calculate_position source_config backwards_series ! 0) = 0 \<and>
   px (calculate_position source_config backwards_series ! 1) = 1 \<and>
   px (calculate_position source_config backwards_series ! 0) = 0"
  by (simp add: backwards_rows) (simp add: backwards_series_def)

text \<open>
  C4 (as amended). At every index \<open>i \<ge> 1\<close> whose time stamp equals the previous one
  (\<open>dt = 0\<close>), the position is the previous position in both modes, and the velocity is the
  previous velocity in plain mode and, in zero-velocity mode, at samples not flagged
  stationary.
\<close>

theorem zero_dt_is_no_update:
  assumes "1 \<le> i" and "i < length data"
    and "seconds_elapsed (data ! i) = seconds_elapsed (data ! (i - 1))"
  shows
    "(let rows = calculate_position cfg data
      in px (rows ! i) = px (rows ! (i - 1)) \<and>
         py (rows ! i) = py (rows ! (i - 1)) \<and>
         pz (rows ! i) = pz (rows ! (i - 1)) \<and>
         (is_stationary (rows ! i) \<noteq> Some True \<longrightarrow>
            vx (rows ! i) = vx (rows ! (i - 1)) \<and>
            vy (rows ! i) = vy (rows ! (i - 1)) \<and>
            vz (rows ! i) = vz (rows ! (i - 1))))"
proof -
  define column where "column =
     (if APPLY_ZUPT cfg then Some (detect_stationary_periods data (ACC_THRESHOLD cfg) (WINDOW_SIZE cfg))
      else None)"
  define flags where "flags =
     (if APPLY_ZUPT cfg then detect_stationary_periods data (ACC_THRESHOLD cfg) (WINDOW_SIZE cfg)
      else replicate (length data) False)"
  have rows: "calculate_position cfg data = integrate_rows (UNITS_IN_MPS2 cfg) data column flags"
    unfolding column_def flags_def by (rule calculate_position_integrate_rows)
  have i1: "i - 1 < length data" using assms(2) by simp
  have dt: "seconds_elapsed (integrate_rows (UNITS_IN_MPS2 cfg) data column flags ! i) -
            seconds_elapsed (integrate_rows (UNITS_IN_MPS2 cfg) data column flags ! (i - 1)) = 0"
    using assms(3) integrate_rows_time[OF assms(2), of "UNITS_IN_MPS2 cfg" column flags]
      integrate_rows_time[OF i1, of "UNITS_IN_MPS2 cfg" column flags]
    by (simp del: One_nat_def)
  have st: "is_stationary (integrate_rows (UNITS_IN_MPS2 cfg) data column flags ! i) \<noteq> Some True
            \<Longrightarrow> \<not> flags ! i"
    using assms(2) by (auto simp: integrate_rows_nth column_def flags_def split: if_splits)
  note s = integrate_rows_step[OF assms(1,2), of "UNITS_IN_MPS2 cfg" column flags, unfolded dt]
  show ?thesis
    unfolding Let_def rows using s st by simp
qed

theorem zero_dt_is_no_update_witness:
  "(1::nat) \<le> 1 \<and> 1 < length repeated_series \<and>
   seconds_elapsed (repeated_series ! 1) = seconds_elapsed (repeated_series ! (1 - 1)) \<and>
   px (calculate_position source_config repeated_series ! 1) =
     px (calculate_position source_config repeated_series ! 0) \<and>
   is_stationary (calculate_position source_config repeated_series ! 1) \<noteq> Some True \<and>
   vx (calculate_position source_config repeated_series ! 1) =
     vx (calculate_position source_config repeated_series ! 0)"
proof -
  have a: "(1::nat) \<le> 1" by simp
  have b: "1 < length repeated_series" by (simp add: repeated_series_def)
  have c: "seconds_elapsed (repeated_series ! 1) = seconds_elapsed (repeated_series ! (1 - 1))"
    by (simp add: repeated_series_def)
  have d: "is_stationary (calculate_position source_config repeated_series ! 1) \<noteq> Some True"
    using b by (simp add: calculate_position_integrate_rows integrate_rows_nth source_config_def)
  show ?thesis
    using zero_dt_is_no_update [OF a b c, of source_config] a b c d
    by (simp add: Let_def)
qed

section \<open>Properties of float64 rounding\<close>








section \<open>Properties of the calibration\<close>

lemma vec_mat_transpose: "vec_mat v (transpose3 m) = mat_vec m v"
  by (cases v; cases m rule: prod_cases3; auto simp: mult.commute)

lemma column_stack_columns:
  "column_stack (map x_acc data) (map y_acc data) (map z_acc data) = map acc_of data"
  by (induction data) (simp_all add: column_stack_def acc_of_def)

lemma map2_map_same: "map2 f xs (map g xs) = map (\<lambda>x. f x (g x)) xs"
  by (induction xs) simp_all

lemma acc_of_with_acc: "acc_of (with_acc s c) = c"
  by (cases c) (simp add: acc_of_def with_acc_def)

lemma apply_calibration_try_present:
  "apply_calibration_try units frame_dtype data \<lparr>bias = Some b, transform_matrix = Some transform\<rparr> =
     Inr (map (\<lambda>s. with_acc s
                 (if units
                  then vec_times_f64
                         (mat_vec transform (vec_sub (vec_div_f64 (acc_of s) standard_gravity) b))
                         standard_gravity
                  else astype frame_dtype (mat_vec transform (vec_sub (acc_of s) b)))) data)"
  by (cases units)
     (simp_all add: apply_calibration_try_def calibration_loop_def Let_def map2_map_same
       comp_def)

lemma apply_calibration_present:
  "apply_calibration units frame_dtype data (Some \<lparr>bias = Some b, transform_matrix = Some transform\<rparr>) =
     ([], map (\<lambda>s. with_acc s
                 (if units
                  then vec_times_f64
                         (mat_vec transform (vec_sub (vec_div_f64 (acc_of s) standard_gravity) b))
                         standard_gravity
                  else astype frame_dtype (mat_vec transform (vec_sub (acc_of s) b)))) data)"
  by (simp add: apply_calibration_def apply_calibration_try_present)

text \<open>
  On a float-typed array, and with \<open>np.dot\<close> taken as the exact sum of products, the
  row-wise matrix form of \<open>calibrate_accelerometer\<close> and the loop of \<open>apply_calibration\<close>
  are the same function.
\<close>

lemma matrix_form_equals_float_loop:
  "calibrated_data_of b transform (map x_acc data) (map y_acc data) (map z_acc data)
     = calibration_loop Float64 transform b (map acc_of data)"
  by (simp add: calibrated_data_of_def calibration_loop_def column_stack_columns
      vec_mat_transpose comp_def)

text \<open>
  C10 fails on the code for an integer-typed frame in g-units. For the one point
  \<open>(1, 2, 3)\<close>, bias \<open>(0.5, -1, 2)\<close> and the identity transform, the loop of
  \<open>apply_calibration\<close> stores \<open>(0.5, 3, 1)\<close> into an \<open>int64\<close> array and returns \<open>(0, 3, 1)\<close>,
  while the matrix form of \<open>calibrate_accelerometer\<close> returns \<open>(0.5, 3, 1)\<close>.
\<close>

theorem integer_frame_loop_truncates:
  "map acc_of (snd (apply_calibration False Int64 (one_sample (1, 2, 3))
                      (Some \<lparr>bias = Some (1 / 2, - 1, 2), transform_matrix = Some identity3\<rparr>)))
     = [(0, 3, 1)] \<and>
   calibrated_data_of (1 / 2, - 1, 2) identity3 [1] [2] [3] = [(1 / 2, 3, 1)]"
  by (simp add: apply_calibration_present one_sample_def acc_of_with_acc identity3_def
      calibrated_data_of_def column_stack_def to_int64_def)
     (simp add: acc_of_def)






text \<open>
  C7 as stated fails: without parameters, and when reading a parameter raises, the function
  returns the uncalibrated input frame and no error.
\<close>

theorem apply_calibration_returns_raw:
  "apply_calibration True Float64 pulse_series None = ([Warning_no_parameters], pulse_series) \<and>
   apply_calibration True Float64 pulse_series (Some \<lparr>bias = None, transform_matrix = Some identity3\<rparr>)
     = ([Error_failed_to_apply (KeyError ''bias''), Warning_using_raw], pulse_series)"
  by (simp add: apply_calibration_def apply_calibration_try_def)

text \<open>
  C7 (as amended). Applying a calibration never fails. Without parameters it prints a
  warning and returns the raw frame; when a parameter is missing it catches the exception,
  prints the error and a warning, and returns the raw frame; otherwise it prints nothing
  and returns the calibrated frame.
\<close>

theorem apply_calibration_total:
  "apply_calibration units frame_dtype data None = ([Warning_no_parameters], data) \<and>
   apply_calibration units frame_dtype data (Some \<lparr>bias = None, transform_matrix = t\<rparr>)
     = ([Error_failed_to_apply (KeyError ''bias''), Warning_using_raw], data) \<and>
   apply_calibration units frame_dtype data (Some \<lparr>bias = Some b, transform_matrix = None\<rparr>)
     = ([Error_failed_to_apply (KeyError ''transform_matrix''), Warning_using_raw], data) \<and>
   apply_calibration units frame_dtype data (Some \<lparr>bias = Some b, transform_matrix = Some transform\<rparr>)
     = ([], map (\<lambda>s. with_acc s
                 (if units
                  then vec_times_f64
                         (mat_vec transform (vec_sub (vec_div_f64 (acc_of s) standard_gravity) b))
                         standard_gravity
                  else astype frame_dtype (mat_vec transform (vec_sub (acc_of s) b)))) data)"
  by (simp add: apply_calibration_present) (simp add: apply_calibration_def apply_calibration_try_def)

section \<open>Properties of the drift metrics\<close>

lemma length_calculate_position: "length (calculate_position cfg data) = length data"
  by (simp add: calculate_position_integrate_rows length_integrate_rows)

lemma calculate_position_nonempty: "data \<noteq> [] \<Longrightarrow> calculate_position cfg data \<noteq> []"
  using length_calculate_position[of cfg data] by auto

lemma integrate_rows_displacement:
  assumes "i < length data"
  shows "displacement (integrate_rows units data column flags ! i) =
         norm3 (px (integrate_rows units data column flags ! i),
                py (integrate_rows units data column flags ! i),
                pz (integrate_rows units data column flags ! i))"
  by (simp add: integrate_rows_nth[OF assms])


lemma calculate_position_last:
  assumes "data \<noteq> []"
  shows "displacement (last (calculate_position cfg data)) =
         norm3 (px (last (calculate_position cfg data)),
                py (last (calculate_position cfg data)),
                pz (last (calculate_position cfg data)))"
proof -
  have n: "length data - 1 < length data" using assms by simp
  have l: "last (calculate_position cfg data) = calculate_position cfg data ! (length data - 1)"
    using last_conv_nth[OF calculate_position_nonempty[OF assms, of cfg]]
    by (simp only: length_calculate_position)
  have "displacement (calculate_position cfg data ! (length data - 1)) =
         norm3 (px (calculate_position cfg data ! (length data - 1)),
                py (calculate_position cfg data ! (length data - 1)),
                pz (calculate_position cfg data ! (length data - 1)))"
    unfolding calculate_position_integrate_rows
    by (rule integrate_rows_displacement[OF n])
  then show ?thesis
    by (simp only: l)
qed

lemma calculate_drift_Cons:
  "calculate_drift (r # rs) distance =
     Inr \<lparr>final_position = (px (last (r # rs)), py (last (r # rs)), pz (last (r # rs))),
          final_displacement = displacement (last (r # rs)),
          drift_magnitude = norm3 (px (last (r # rs)), py (last (r # rs)), pz (last (r # rs))),
          known_distance = distance,
          max_displacement = map_option (\<lambda>d. fold max (map displacement rs) (displacement r)) distance,
          max_displacement_error =
            map_option (\<lambda>d. \<bar>fold max (map displacement rs) (displacement r) - d\<bar>) distance,
          max_displacement_error_percent =
            map_option (\<lambda>d. np_multiply
               (np_divide \<bar>fold max (map displacement rs) (displacement r) - d\<bar> d) 100) distance,
          return_error =
            map_option (\<lambda>d. norm3 (px (last (r # rs)), py (last (r # rs)), pz (last (r # rs)))) distance\<rparr>"
  by (cases distance) (simp_all add: calculate_drift_def Let_def del: last.simps norm3.simps)


text \<open>
  C9. For every series of motion states that the integrator completes from a non-empty
  input, the drift evaluator returns metrics whose \<open>final_position\<close> is the position of
  the last state, and \<open>drift_magnitude\<close>, \<open>final_displacement\<close> and, when a known distance
  is supplied, \<open>return_error\<close> are the same number: the Euclidean norm of that position.
\<close>

theorem drift_metrics_coincide:
  assumes "data \<noteq> []"
  shows "\<exists>m. calculate_drift (calculate_position cfg data) distance = Inr m \<and>
           final_position m = (px (last (calculate_position cfg data)),
                               py (last (calculate_position cfg data)),
                               pz (last (calculate_position cfg data))) \<and>
           drift_magnitude m = norm3 (final_position m) \<and>
           final_displacement m = norm3 (final_position m) \<and>
           (distance \<noteq> None \<longrightarrow> return_error m = Some (norm3 (final_position m)))"
proof -
  obtain r rs where rows: "calculate_position cfg data = r # rs"
    using calculate_position_nonempty[OF assms, of cfg]
    by (cases "calculate_position cfg data") auto
  have l: "displacement (last (r # rs)) = norm3 (px (last (r # rs)), py (last (r # rs)), pz (last (r # rs)))"
    using calculate_position_last[OF assms, of cfg] by (simp only: rows)
  show ?thesis
    unfolding rows calculate_drift_Cons using l
    by (cases distance) (simp_all del: last.simps norm3.simps)
qed

theorem drift_metrics_coincide_witness:
  "pulse_series \<noteq> [] \<and>
   (\<exists>m. calculate_drift (calculate_position source_config pulse_series) (Some (34 / 100)) = Inr m \<and>
        final_position m = (2, 0, 0) \<and>
        drift_magnitude m = 2 \<and>
        final_displacement m = 2 \<and>
        return_error m = Some 2)"
proof -
  have ne: "pulse_series \<noteq> []" by (simp add: pulse_series_def)
  have l: "px (last (calculate_position source_config pulse_series)) = 2"
    "py (last (calculate_position source_config pulse_series)) = 0"
    "pz (last (calculate_position source_config pulse_series)) = 0"
    by (simp_all add: pulse_rows)
  from drift_metrics_coincide [OF ne, of source_config "Some (34 / 100)"]
  obtain m where m: "calculate_drift (calculate_position source_config pulse_series) (Some (34 / 100)) = Inr m"
    "final_position m = (px (last (calculate_position source_config pulse_series)),
                         py (last (calculate_position source_config pulse_series)),
                         pz (last (calculate_position source_config pulse_series)))"
    "drift_magnitude m = norm3 (final_position m)"
    "final_displacement m = norm3 (final_position m)"
    "return_error m = Some (norm3 (final_position m))"
    by auto
  from m(2) l have f: "final_position m = (2, 0, 0)" by simp
  then have "norm3 (final_position m) = 2" by simp
  with m f ne show ?thesis by auto
qed

text \<open>
  C6 as stated fails: with a known distance of 0 the drift evaluator raises nothing. On the
  integrated pulse series it returns the metrics, with an infinite percentage.
\<close>

theorem zero_distance_returns_metrics:
  "calculate_drift (calculate_position source_config pulse_series) (Some 0) =
     Inr \<lparr>final_position = (2, 0, 0), final_displacement = 2, drift_magnitude = 2,
          known_distance = Some 0, max_displacement = Some 2, max_displacement_error = Some 2,
          max_displacement_error_percent = Some PosInf, return_error = Some 2\<rparr>"
  by (simp add: pulse_rows calculate_drift_Cons np_divide_def)

text \<open>
  C6 (as amended). Given a known distance of 0 and a non-empty series of motion states, the
  drift evaluator returns its metrics without an error; \<open>max_displacement_error_percent\<close>
  is not a finite number: it is \<open>inf\<close> when the maximal displacement is not 0 and \<open>nan\<close>
  when it is 0.
\<close>

theorem zero_distance_percent_not_finite:
  assumes "position_data \<noteq> []"
  shows "\<exists>m d. calculate_drift position_data (Some 0) = Inr m \<and>
           max_displacement m = Some d \<and>
           max_displacement_error_percent m = Some (if d = 0 then NaN else PosInf)"
proof -
  obtain r rs where rows: "position_data = r # rs"
    using assms by (cases position_data) auto
  show ?thesis
    unfolding rows calculate_drift_Cons
    by (simp add: np_divide_def del: last.simps norm3.simps)
qed

theorem zero_distance_percent_not_finite_witness:
  "calculate_position source_config pulse_series \<noteq> [] \<and>
   (\<exists>m d. calculate_drift (calculate_position source_config pulse_series) (Some 0) = Inr m \<and>
          max_displacement m = Some d \<and>
          max_displacement_error_percent m = Some (if d = 0 then NaN else PosInf))"
proof -
  have ne: "calculate_position source_config pulse_series \<noteq> []"
    by (simp add: pulse_rows)
  show ?thesis
    using zero_distance_percent_not_finite [OF ne] ne
    by blast
qed

section \<open>Properties of the ellipsoid fit\<close>

lemma residual_nonneg: "0 \<le> residual D b w"
  unfolding residual_def by (rule sum_list_nonneg) auto

lemma sum_list_squares_zero:
  fixes xs :: "real list"
  assumes "sum_list (map (\<lambda>x. x\<^sup>2) xs) = 0" and "x \<in> set xs"
  shows "x = 0"
  using assms
proof (induction xs)
  case Nil
  then show ?case by simp
next
  case (Cons y ys)
  have nn: "0 \<le> sum_list (map (\<lambda>x. x\<^sup>2) ys)"
    by (rule sum_list_nonneg) auto
  from Cons.prems(1) have "y\<^sup>2 + sum_list (map (\<lambda>x. x\<^sup>2) ys) = 0" by simp
  with nn have "y\<^sup>2 = 0" and "sum_list (map (\<lambda>x. x\<^sup>2) ys) = 0"
    by (simp_all add: add_nonneg_eq_0_iff)
  with Cons show ?case by auto
qed

lemma residual_zero_rows:
  assumes "residual D b w = 0" and "length D = length b" and "i < length D"
  shows "dot (D ! i) w = b ! i"
proof -
  have "residual D b w = sum_list (map (\<lambda>x. x\<^sup>2) (map2 (\<lambda>row bi. dot row w - bi) D b))"
    by (simp add: residual_def comp_def case_prod_unfold)
  moreover have "dot (D ! i) w - b ! i \<in> set (map2 (\<lambda>row bi. dot row w - bi) D b)"
    using assms(2,3) by (auto simp: set_conv_nth intro!: exI[of _ i])
  ultimately have "dot (D ! i) w - b ! i = 0"
    using assms(1) sum_list_squares_zero by metis
  then show ?thesis by simp
qed

lemma list9:
  assumes "length (w :: real list) = 9"
  obtains a b c d e f g h i where "w = [a, b, c, d, e, f, g, h, i]"
proof -
  from assms have "length w = Suc (Suc (Suc (Suc (Suc (Suc (Suc (Suc (Suc 0))))))))"
    by simp
  then show ?thesis
    using that by (auto simp: length_Suc_conv)
qed

lemma hyperboloid_design:
  "design_matrix hyperboloid_X hyperboloid_Y hyperboloid_Z =
     [[1, 0, 0, 0, 0, 0, 2, 0, 0],
      [1, 0, 0, 0, 0, 0, - 2, 0, 0],
      [0, 1, 0, 0, 0, 0, 0, 2, 0],
      [0, 1, 0, 0, 0, 0, 0, - 2, 0],
      [1, 1, 1, 2, 2, 2, 2, 2, 2],
      [1, 1, 1, 2, - 2, - 2, 2, 2, - 2],
      [1, 1, 1, - 2, 2, - 2, 2, - 2, 2],
      [1, 1, 1, - 2, - 2, 2, - 2, 2, 2],
      [1, 1, 1, 2, - 2, - 2, - 2, - 2, 2]]"
  by (simp add: design_matrix_def hyperboloid_X_def hyperboloid_Y_def hyperboloid_Z_def)

lemma hyperboloid_ones: "ones_like hyperboloid_X = [1, 1, 1, 1, 1, 1, 1, 1, 1]"
  by (simp add: ones_like_def hyperboloid_X_def)

lemma hyperboloid_exact:
  "residual (design_matrix hyperboloid_X hyperboloid_Y hyperboloid_Z) (ones_like hyperboloid_X)
     [1, 1, - 1, 0, 0, 0, 0, 0, 0] = 0"
  by (simp add: hyperboloid_design hyperboloid_ones residual_def dot_def)

lemma hyperboloid_unique:
  assumes "length w = 9"
    and "residual (design_matrix hyperboloid_X hyperboloid_Y hyperboloid_Z) (ones_like hyperboloid_X) w = 0"
  shows "w = [1, 1, - 1, 0, 0, 0, 0, 0, 0]"
proof -
  obtain a b c d e f g h i where w: "w = [a, b, c, d, e, f, g, h, i]"
    using assms(1) by (rule list9)
  let ?D = "design_matrix hyperboloid_X hyperboloid_Y hyperboloid_Z"
  let ?b = "ones_like hyperboloid_X"
  have len: "length ?D = length ?b" "length ?D = 9"
    by (simp_all add: hyperboloid_design hyperboloid_ones)
  have row: "dot (?D ! k) w = ?b ! k" if "k < 9" for k
    using residual_zero_rows[OF assms(2) len(1)] that len(2) by simp
  have e0: "a + 2 * g = 1"
    using row[of 0] by (simp add: hyperboloid_design hyperboloid_ones dot_def w)
  have e1: "a - 2 * g = 1"
    using row[of 1] by (simp add: hyperboloid_design hyperboloid_ones dot_def w)
  have e2: "b + 2 * h = 1"
    using row[of 2] by (simp add: hyperboloid_design hyperboloid_ones dot_def w)
  have e3: "b - 2 * h = 1"
    using row[of 3] by (simp add: hyperboloid_design hyperboloid_ones dot_def w)
  have e4: "a + b + c + 2 * d + 2 * e + 2 * f + 2 * g + 2 * h + 2 * i = 1"
    using row[of 4] by (simp add: hyperboloid_design hyperboloid_ones dot_def w)
  have e5: "a + b + c + 2 * d - 2 * e - 2 * f + 2 * g + 2 * h - 2 * i = 1"
    using row[of 5] by (simp add: hyperboloid_design hyperboloid_ones dot_def w)
  have e6: "a + b + c - 2 * d + 2 * e - 2 * f + 2 * g - 2 * h + 2 * i = 1"
    using row[of 6] by (simp add: hyperboloid_design hyperboloid_ones dot_def w)
  have e7: "a + b + c - 2 * d - 2 * e + 2 * f - 2 * g + 2 * h + 2 * i = 1"
    using row[of 7] by (simp add: hyperboloid_design hyperboloid_ones dot_def w)
  have e8: "a + b + c + 2 * d - 2 * e - 2 * f - 2 * g - 2 * h + 2 * i = 1"
    using row[of 8] by (simp add: hyperboloid_design hyperboloid_ones dot_def w)
  have "a = 1" "g = 0" "b = 1" "h = 0" using e0 e1 e2 e3 by linarith+
  moreover have "i = 0" using e5 e8 \<open>g = 0\<close> \<open>h = 0\<close> by linarith
  moreover have "e = 0" "f = 0" "d = 0" "c = - 1"
    using e4 e5 e6 e7 \<open>a = 1\<close> \<open>b = 1\<close> \<open>g = 0\<close> \<open>h = 0\<close> \<open>i = 0\<close> by linarith+
  ultimately show ?thesis by (simp add: w)
qed

lemma hyperboloid_lstsq:
  "is_lstsq (design_matrix hyperboloid_X hyperboloid_Y hyperboloid_Z) (ones_like hyperboloid_X)
     [1, 1, - 1, 0, 0, 0, 0, 0, 0]"
  unfolding is_lstsq_def
proof (intro conjI allI impI)
  show "length [1, 1, - 1, 0, 0, 0, 0, 0, 0 :: real] = 9" by simp
next
  fix w :: "real list"
  show "residual (design_matrix hyperboloid_X hyperboloid_Y hyperboloid_Z) (ones_like hyperboloid_X)
          [1, 1, - 1, 0, 0, 0, 0, 0, 0]
        \<le> residual (design_matrix hyperboloid_X hyperboloid_Y hyperboloid_Z) (ones_like hyperboloid_X) w"
    by (simp only: hyperboloid_exact residual_nonneg)
next
  fix w :: "real list"
  assume a: "length w = 9 \<and>
    (\<forall>v. length v = 9 \<longrightarrow>
       residual (design_matrix hyperboloid_X hyperboloid_Y hyperboloid_Z) (ones_like hyperboloid_X) w
       \<le> residual (design_matrix hyperboloid_X hyperboloid_Y hyperboloid_Z) (ones_like hyperboloid_X) v)"
  then have "residual (design_matrix hyperboloid_X hyperboloid_Y hyperboloid_Z) (ones_like hyperboloid_X) w
      \<le> residual (design_matrix hyperboloid_X hyperboloid_Y hyperboloid_Z) (ones_like hyperboloid_X)
           [1, 1, - 1, 0, 0, 0, 0, 0, 0]"
    by simp
  then have "residual (design_matrix hyperboloid_X hyperboloid_Y hyperboloid_Z) (ones_like hyperboloid_X) w = 0"
    using residual_nonneg[of "design_matrix hyperboloid_X hyperboloid_Y hyperboloid_Z" "ones_like hyperboloid_X" w]
    by (simp only: hyperboloid_exact)
  with a have "w = [1, 1, - 1, 0, 0, 0, 0, 0, 0]"
    using hyperboloid_unique by blast
  then show "norm_sq [1, 1, - 1, 0, 0, 0, 0, 0, 0] \<le> norm_sq w" by simp
qed

lemma hyperboloid_coefficients:
  "is_lstsq (design_matrix hyperboloid_X hyperboloid_Y hyperboloid_Z) (ones_like hyperboloid_X) u
   \<Longrightarrow> u = [1, 1, - 1, 0, 0, 0, 0, 0, 0]"
proof -
  assume a: "is_lstsq (design_matrix hyperboloid_X hyperboloid_Y hyperboloid_Z) (ones_like hyperboloid_X) u"
  then have len: "length u = 9" by (simp add: is_lstsq_def)
  from a have "residual (design_matrix hyperboloid_X hyperboloid_Y hyperboloid_Z) (ones_like hyperboloid_X) u
      \<le> residual (design_matrix hyperboloid_X hyperboloid_Y hyperboloid_Z) (ones_like hyperboloid_X)
           [1, 1, - 1, 0, 0, 0, 0, 0, 0]"
    unfolding is_lstsq_def by simp
  then have "residual (design_matrix hyperboloid_X hyperboloid_Y hyperboloid_Z) (ones_like hyperboloid_X) u = 0"
    using residual_nonneg[of "design_matrix hyperboloid_X hyperboloid_Y hyperboloid_Z" "ones_like hyperboloid_X" u]
    by (simp only: hyperboloid_exact)
  with len show ?thesis by (rule hyperboloid_unique)
qed

lemma translated_corner: "translated u c ! 3 ! 3 = - 1"
  by (cases c) (simp add: translated_def mat_mul4_def transpose4_def quadric_matrix_def)

lemma det3_mat_neg: "det3 (mat_neg m) = - det3 m"
  by (cases m rule: prod_cases3; auto simp: algebra_simps)

lemma solve3_singular: "det3 m = 0 \<Longrightarrow> solve3 m v = Inl LinAlgError"
  by (cases m rule: prod_cases3; cases v; auto simp: Let_def)

lemma solve3_regular: "det3 m \<noteq> 0 \<Longrightarrow> \<exists>c. solve3 m v = Inr c"
  by (cases m rule: prod_cases3; cases v; auto simp: Let_def)

lemma radius_of_positive: "positive_real (radius_of w) \<longleftrightarrow> 0 < w"
  by (auto simp: radius_of_def np_sqrt_def np_divide_def)

lemma radius_of_negative: "w < 0 \<Longrightarrow> radius_of w = NaN"
  by (simp add: radius_of_def np_sqrt_def)

text \<open>The body of \<open>fit_ellipsoid\<close> without its dead branch.\<close>

lemma fit_ellipsoid_cases:
  "fit_ellipsoid np X Y Z =
     (case np_lstsq np (design_matrix X Y Z) (ones_like X) of
        Inl e \<Rightarrow> Inl e
      | Inr u \<Rightarrow>
          (case np_solve np (center_matrix u) (center_rhs u) of
             Inl e \<Rightarrow> Inl e
           | Inr center \<Rightarrow>
               (case np_eig np (mat_div (upper_left3 (translated u center)) 1) of
                  Inl e \<Rightarrow> Inl e
                | Inr (w, evecs) \<Rightarrow>
                    Inr (center, (radius_of (fst w), radius_of (fst (snd w)), radius_of (snd (snd w))),
                         evecs))))"
  by (simp add: fit_ellipsoid_def Let_def translated_corner split: sum.splits prod.splits)

lemma hyperboloid_solve:
  "solve3 (center_matrix [1, 1, - 1, 0, 0, 0, 0, 0, 0]) (center_rhs [1, 1, - 1, 0, 0, 0, 0, 0, 0])
     = Inr (0, 0, 0)"
  by (simp add: center_matrix_def center_rhs_def quadric_matrix_def upper_left3_def last_column3_def)

lemma hyperboloid_form:
  "mat_div (upper_left3 (translated [1, 1, - 1, 0, 0, 0, 0, 0, 0] (0, 0, 0))) 1
   = ((1, 0, 0), (0, 1, 0), (0, 0, - 1))"
  by (simp add: translated_def quadric_matrix_def upper_left3_def mat_mul4_def transpose4_def)

lemma hyperboloid_eig: "is_eig ((1, 0, 0), (0, 1, 0), (0, 0, - 1)) (1, 1, - 1) identity3"
  by (simp add: is_eig_def identity3_def)

lemma hyperboloid_radii: "radius_of 1 = Finite 1" "radius_of (- 1) = NaN"
  by (simp_all add: radius_of_def np_sqrt_def np_divide_def)

lemma hyperboloid_routines:
  "np_lstsq hyperboloid_linalg (design_matrix hyperboloid_X hyperboloid_Y hyperboloid_Z)
     (ones_like hyperboloid_X) = Inr [1, 1, - 1, 0, 0, 0, 0, 0, 0]"
  "np_solve hyperboloid_linalg = solve3"
  "np_eig hyperboloid_linalg ((1, 0, 0), (0, 1, 0), (0, 0, - 1)) = Inr ((1, 1, - 1), identity3)"
  by (simp_all add: hyperboloid_linalg_def)

lemma hyperboloid_run:
  "fit_ellipsoid hyperboloid_linalg hyperboloid_X hyperboloid_Y hyperboloid_Z
     = Inr ((0, 0, 0), (Finite 1, Finite 1, NaN), identity3)"
  by (simp add: fit_ellipsoid_cases hyperboloid_routines hyperboloid_solve hyperboloid_form
      hyperboloid_radii)

text \<open>
  C5 as stated fails. The nine hyperboloid points are neither collinear nor coplanar and
  the least-squares fit is exact on them; the 3x3 system for the center is regular, and the
  quadratic form has the eigenvalue \<open>-1\<close>. With these results of the numpy routines the fit
  does not fail: it returns the radii \<open>(1, 1, nan)\<close>.
\<close>

theorem fit_ellipsoid_returns_nan_radius:
  "is_lstsq (design_matrix hyperboloid_X hyperboloid_Y hyperboloid_Z) (ones_like hyperboloid_X)
     [1, 1, - 1, 0, 0, 0, 0, 0, 0] \<and>
   is_eig ((1, 0, 0), (0, 1, 0), (0, 0, - 1)) (1, 1, - 1) identity3 \<and>
   fit_ellipsoid hyperboloid_linalg hyperboloid_X hyperboloid_Y hyperboloid_Z
     = Inr ((0, 0, 0), (Finite 1, Finite 1, NaN), identity3) \<and>
   \<not> positive_real NaN"
  using hyperboloid_lstsq hyperboloid_eig hyperboloid_run by simp

text \<open>
  C5 (as amended). The ellipsoid fit validates nothing and has no error of its own: it
  fails exactly when one of the numpy routines it calls raises (the least-squares solver,
  the solver of the 3x3 system for the center, the eigen-decomposition), with the exception
  of that routine; it checks neither the number or the position of the points nor the sign
  of the eigenvalues. When the three routines succeed it returns the center, the radii
  \<open>1 / sqrt(eigenvalue)\<close> and the eigenvectors; a radius is a strictly positive real number
  exactly when its eigenvalue is strictly positive, and it is \<open>nan\<close> for a negative one.
\<close>

theorem fit_ellipsoid_outcomes:
  "(fit_ellipsoid np X Y Z = Inl e \<longleftrightarrow>
      np_lstsq np (design_matrix X Y Z) (ones_like X) = Inl e \<or>
      (\<exists>u. np_lstsq np (design_matrix X Y Z) (ones_like X) = Inr u \<and>
           (np_solve np (center_matrix u) (center_rhs u) = Inl e \<or>
            (\<exists>c. np_solve np (center_matrix u) (center_rhs u) = Inr c \<and>
                 np_eig np (mat_div (upper_left3 (translated u c)) 1) = Inl e)))) \<and>
   (fit_ellipsoid np X Y Z = Inr (center, (r1, r2, r3), evecs) \<longleftrightarrow>
      (\<exists>u w1 w2 w3.
         np_lstsq np (design_matrix X Y Z) (ones_like X) = Inr u \<and>
         np_solve np (center_matrix u) (center_rhs u) = Inr center \<and>
         np_eig np (mat_div (upper_left3 (translated u center)) 1) = Inr ((w1, w2, w3), evecs) \<and>
         r1 = radius_of w1 \<and> r2 = radius_of w2 \<and> r3 = radius_of w3)) \<and>
   (positive_real (radius_of w) \<longleftrightarrow> 0 < w) \<and>
   (w < 0 \<longrightarrow> radius_of w = NaN)"
proof (intro conjI)
  show "fit_ellipsoid np X Y Z = Inl e \<longleftrightarrow>
      np_lstsq np (design_matrix X Y Z) (ones_like X) = Inl e \<or>
      (\<exists>u. np_lstsq np (design_matrix X Y Z) (ones_like X) = Inr u \<and>
           (np_solve np (center_matrix u) (center_rhs u) = Inl e \<or>
            (\<exists>c. np_solve np (center_matrix u) (center_rhs u) = Inr c \<and>
                 np_eig np (mat_div (upper_left3 (translated u c)) 1) = Inl e)))"
    unfolding fit_ellipsoid_cases by (auto split: sum.splits prod.splits)
  show "fit_ellipsoid np X Y Z = Inr (center, (r1, r2, r3), evecs) \<longleftrightarrow>
      (\<exists>u w1 w2 w3.
         np_lstsq np (design_matrix X Y Z) (ones_like X) = Inr u \<and>
         np_solve np (center_matrix u) (center_rhs u) = Inr center \<and>
         np_eig np (mat_div (upper_left3 (translated u center)) 1) = Inr ((w1, w2, w3), evecs) \<and>
         r1 = radius_of w1 \<and> r2 = radius_of w2 \<and> r3 = radius_of w3)"
    unfolding fit_ellipsoid_cases by (auto split: sum.splits prod.splits)
  show "positive_real (radius_of w) \<longleftrightarrow> 0 < w"
    by (rule radius_of_positive)
  show "w < 0 \<longrightarrow> radius_of w = NaN"
    by (simp add: radius_of_negative)
qed

theorem fit_ellipsoid_outcomes_witness:
  "fit_ellipsoid hyperboloid_linalg hyperboloid_X hyperboloid_Y hyperboloid_Z
     = Inr ((0, 0, 0), (Finite 1, Finite 1, NaN), identity3) \<and>
   (\<exists>u w1 w2 w3.
      np_lstsq hyperboloid_linalg (design_matrix hyperboloid_X hyperboloid_Y hyperboloid_Z)
        (ones_like hyperboloid_X) = Inr u \<and>
      np_solve hyperboloid_linalg (center_matrix u) (center_rhs u) = Inr (0, 0, 0) \<and>
      np_eig hyperboloid_linalg (mat_div (upper_left3 (translated u (0, 0, 0))) 1)
        = Inr ((w1, w2, w3), identity3) \<and>
      Finite 1 = radius_of w1 \<and> Finite 1 = radius_of w2 \<and> NaN = radius_of w3) \<and>
   (- 1 < (0::real) \<and> radius_of (- 1) = NaN \<and> \<not> positive_real (radius_of (- 1)))"
proof -
  note t = fit_ellipsoid_outcomes [of hyperboloid_linalg hyperboloid_X hyperboloid_Y hyperboloid_Z
      LinAlgError "(0, 0, 0)" "Finite 1" "Finite 1" NaN identity3 "- 1"]
  have r: "fit_ellipsoid hyperboloid_linalg hyperboloid_X hyperboloid_Y hyperboloid_Z
     = Inr ((0, 0, 0), (Finite 1, Finite 1, NaN), identity3)"
    by (rule hyperboloid_run)
  have n: "- 1 < (0::real)" by simp
  from t r have "\<exists>u w1 w2 w3.
      np_lstsq hyperboloid_linalg (design_matrix hyperboloid_X hyperboloid_Y hyperboloid_Z)
        (ones_like hyperboloid_X) = Inr u \<and>
      np_solve hyperboloid_linalg (center_matrix u) (center_rhs u) = Inr (0, 0, 0) \<and>
      np_eig hyperboloid_linalg (mat_div (upper_left3 (translated u (0, 0, 0))) 1)
        = Inr ((w1, w2, w3), identity3) \<and>
      Finite 1 = radius_of w1 \<and> Finite 1 = radius_of w2 \<and> NaN = radius_of w3"
    by blast
  moreover from t n have "radius_of (- 1) = NaN" "\<not> positive_real (radius_of (- 1))"
    by auto
  ultimately show ?thesis
    using r n by blast
qed

end
